theory Spec2Isabelle
  imports Main
begin

section \<open>Python values, dictionaries and strings\<close>

text \<open>
  The repository is Python. A string is a \<^typ>\<open>string\<close>; a character of the model is one
  of the 256 values of \<^typ>\<open>char\<close>, read as the Unicode code points below 256. What the
  JSON loader can put into a dictionary is a \<open>pyval\<close> (floats are left out: nothing in
  the repository computes with one). A dictionary is an association list in insertion
  order, read through \<^const>\<open>map_of\<close>, which is how \<open>dict.get\<close> reads it.
\<close>

datatype pyval =
    PNone
  | PBool bool
  | PInt int
  | PStr string
  | PList "pyval list"
  | PDict "(string \<times> pyval) list"

type_synonym pydict = "(string \<times> pyval) list"

text \<open>Python's truth value of an object, as \<open>or\<close>, \<open>not\<close> and \<open>if\<close> test it.\<close>

fun truthy :: "pyval \<Rightarrow> bool" where
  "truthy PNone = False"
| "truthy (PBool b) = b"
| "truthy (PInt i) = (i \<noteq> 0)"
| "truthy (PStr s) = (s \<noteq> [])"
| "truthy (PList xs) = (xs \<noteq> [])"
| "truthy (PDict kvs) = (kvs \<noteq> [])"

text \<open>\<open>a or b\<close>: the first operand when it is true, else the second.\<close>

definition py_or :: "pyval \<Rightarrow> pyval \<Rightarrow> pyval" where
  "py_or a b = (if truthy a then a else b)"

text \<open>\<open>d.get(k)\<close> and \<open>d.get(k, default)\<close>: the default only when the key is absent.\<close>

definition dict_get_default :: "pydict \<Rightarrow> string \<Rightarrow> pyval \<Rightarrow> pyval" where
  "dict_get_default d k dflt = (case map_of d k of None \<Rightarrow> dflt | Some v \<Rightarrow> v)"

definition dict_get :: "pydict \<Rightarrow> string \<Rightarrow> pyval" where
  "dict_get d k = dict_get_default d k PNone"

text \<open>
  The exceptions the repository raises or catches. \<open>except Exception\<close> catches all of
  them; \<open>except requests.exceptions.RequestException\<close> only the first.
\<close>

datatype pyexn =
    RequestException string
  | FileNotFoundError string
  | IndexError string
  | ValidationError string
  | OtherException string

fun exn_str :: "pyexn \<Rightarrow> string" where
  "exn_str (RequestException m) = m"
| "exn_str (FileNotFoundError m) = m"
| "exn_str (IndexError m) = m"
| "exn_str (ValidationError m) = m"
| "exn_str (OtherException m) = m"

section \<open>src/utils.py: the chunker\<close>

definition CHUNK_SIZE :: nat where
  "CHUNK_SIZE = 512"

definition CHUNK_OVERLAP :: nat where
  "CHUNK_OVERLAP = 50"

text \<open>
  \<open>get_text_splitter\<close> only configures the library's recursive character splitter. The
  record is that configuration; the library's \<open>split_text\<close> itself is not code of the
  repository and is a parameter \<open>sp\<close> of the functions below, applied to the
  configuration and a text.
\<close>

record splitter =
  chunk_size :: nat
  chunk_overlap :: nat
  separators :: "string list"
  is_separator_regex :: bool

definition get_text_splitter :: "nat \<Rightarrow> nat \<Rightarrow> splitter" where
  "get_text_splitter csize coverlap =
     \<lparr>chunk_size = csize, chunk_overlap = coverlap,
      separators = [[CHR 0x0A, CHR 0x0A], [CHR 0x0A], '' '', ''''],
      is_separator_regex = False\<rparr>"

text \<open>A LangChain \<open>Document\<close>: the chunk's text and its metadata dictionary.\<close>

record document =
  page_content :: string
  metadata :: pydict

text \<open>\<open>doc.get('full_text') or doc.get('text')\<close>\<close>

definition content_text :: "pydict \<Rightarrow> pyval" where
  "content_text doc = py_or (dict_get doc ''full_text'') (dict_get doc ''text'')"

text \<open>\<open>{k: v for k, v in doc.items() if k not in ['text', 'full_text']}\<close>\<close>

definition doc_metadata :: "pydict \<Rightarrow> pydict" where
  "doc_metadata doc = filter (\<lambda>(k, v). k \<notin> set [''text'', ''full_text'']) doc"

text \<open>
  \<open>splitter.split_documents([source_document])\<close>: one \<open>Document\<close> per piece the
  splitter returns for the page content, each with a copy of the source's metadata.
\<close>

definition split_documents ::
  "(string \<Rightarrow> string list) \<Rightarrow> document list \<Rightarrow> document list" where
  "split_documents split_text docs =
     concat (map (\<lambda>d. map (\<lambda>piece. \<lparr>page_content = piece, metadata = metadata d\<rparr>)
                          (split_text (page_content d))) docs)"

text \<open>
  The loop of \<open>split_text_into_chunks\<close>, with the list \<open>chunks\<close> it extends. A record
  whose selected content is false is skipped. \<open>Document\<close> takes a string as page
  content: for a true value that is not a string its constructor does not build the
  document the loop goes on with, which is the error branch here.
\<close>

fun chunks_loop ::
  "(splitter \<Rightarrow> string \<Rightarrow> string list) \<Rightarrow> pydict list \<Rightarrow> document list
     \<Rightarrow> pyexn + document list" where
  "chunks_loop sp [] chunks = Inr chunks"
| "chunks_loop sp (doc # documents) chunks =
     (if \<not> truthy (content_text doc) then chunks_loop sp documents chunks
      else case content_text doc of
        PStr s \<Rightarrow>
          chunks_loop sp documents
            (chunks @ split_documents (sp (get_text_splitter CHUNK_SIZE CHUNK_OVERLAP))
               [\<lparr>page_content = s, metadata = doc_metadata doc\<rparr>])
      | _ \<Rightarrow> Inl (ValidationError ''page_content: str type expected''))"

definition split_text_into_chunks ::
  "(splitter \<Rightarrow> string \<Rightarrow> string list) \<Rightarrow> pydict list \<Rightarrow> pyexn + document list" where
  "split_text_into_chunks sp documents = chunks_loop sp documents []"

text \<open>
  The selection as the specification words it, for comparison: \<open>full_text\<close> if the
  record has that field, else \<open>text\<close>.
\<close>

definition content_text_spec :: "pydict \<Rightarrow> pyval" where
  "content_text_spec doc =
     (case map_of doc ''full_text'' of Some v \<Rightarrow> v | None \<Rightarrow> dict_get doc ''text'')"

text \<open>The chunks one record contributes, in closed form.\<close>

definition chunks_of :: "(splitter \<Rightarrow> string \<Rightarrow> string list) \<Rightarrow> pydict \<Rightarrow> document list" where
  "chunks_of sp doc =
     (case content_text doc of
        PStr s \<Rightarrow>
          map (\<lambda>piece. \<lparr>page_content = piece, metadata = doc_metadata doc\<rparr>)
            (if s = [] then [] else sp (get_text_splitter CHUNK_SIZE CHUNK_OVERLAP) s)
      | _ \<Rightarrow> [])"

section \<open>streamlit\_app.py: the source list of an answer\<close>

text \<open>
  The loop that fills \<open>unique_sources\<close>: one (title, source, url-or-path) triple per
  retrieved document, with the defaults of the three \<open>metadata.get\<close> calls.
\<close>

definition citation :: "document \<Rightarrow> pyval \<times> pyval \<times> pyval" where
  "citation doc =
     (dict_get_default (metadata doc) ''title'' (PStr ''Untitled Document''),
      dict_get_default (metadata doc) ''source'' (PStr ''Unknown Source''),
      dict_get_default (metadata doc) ''url''
        (dict_get_default (metadata doc) ''path'' (PStr ''N/A'')))"

definition unique_sources :: "document list \<Rightarrow> (pyval \<times> pyval \<times> pyval) set" where
  "unique_sources source_documents =
     foldl (\<lambda>acc doc. insert (citation doc) acc) {} source_documents"

text \<open>Enough provenance for a citation: a title, a source, and a url or a path.\<close>

definition has_provenance :: "pydict \<Rightarrow> bool" where
  "has_provenance d =
     (map_of d ''title'' \<noteq> None \<and> map_of d ''source'' \<noteq> None \<and>
      (map_of d ''url'' \<noteq> None \<or> map_of d ''path'' \<noteq> None))"

section \<open>Facts about the chunker\<close>

lemma map_of_doc_metadata:
  "map_of (doc_metadata doc) = map_of doc |` (- {''text'', ''full_text''})"
  by (induction doc) (auto simp: doc_metadata_def restrict_map_def fun_eq_iff)

lemma chunks_loop_Inr:
  "chunks_loop sp documents acc = Inr chunks \<Longrightarrow>
     chunks = acc @ concat (map (chunks_of sp) documents)"
proof (induction documents arbitrary: acc)
  case Nil
  then show ?case by simp
next
  case (Cons doc documents)
  show ?case
  proof (cases "truthy (content_text doc)")
    case False
    then have "chunks_of sp doc = []"
      by (cases "content_text doc") (simp_all add: chunks_of_def)
    from False Cons.prems have "chunks_loop sp documents acc = Inr chunks"
      by simp
    then have "chunks = acc @ concat (map (chunks_of sp) documents)"
      by (rule Cons.IH)
    with \<open>chunks_of sp doc = []\<close> show ?thesis by simp
  next
    case True
    with Cons.prems obtain s where s: "content_text doc = PStr s"
      by (cases "content_text doc") simp_all
    with True have "s \<noteq> []" by simp
    with s have eq: "chunks_of sp doc =
        split_documents (sp (get_text_splitter CHUNK_SIZE CHUNK_OVERLAP))
          [\<lparr>page_content = s, metadata = doc_metadata doc\<rparr>]"
      by (simp add: chunks_of_def split_documents_def)
    from True s Cons.prems
    have "chunks_loop sp documents (acc @ chunks_of sp doc) = Inr chunks"
      by (simp add: eq)
    then have "chunks = (acc @ chunks_of sp doc) @ concat (map (chunks_of sp) documents)"
      by (rule Cons.IH)
    then show ?thesis by simp
  qed
qed

text \<open>The loop returns when the content of every record is false or a string.\<close>

lemma chunks_loop_returns:
  "\<forall>doc \<in> set documents. \<not> truthy (content_text doc) \<or> (\<exists>s. content_text doc = PStr s) \<Longrightarrow>
     \<exists>chunks. chunks_loop sp documents acc = Inr chunks"
proof (induction documents arbitrary: acc)
  case Nil
  then show ?case by simp
next
  case (Cons doc documents)
  from Cons.prems have rest:
    "\<forall>doc \<in> set documents. \<not> truthy (content_text doc) \<or> (\<exists>s. content_text doc = PStr s)"
    by simp
  show ?case
  proof (cases "truthy (content_text doc)")
    case False
    with Cons.IH [OF rest] show ?thesis by simp
  next
    case True
    with Cons.prems obtain s where "content_text doc = PStr s" by auto
    with True Cons.IH [OF rest] show ?thesis by simp
  qed
qed

lemma chunks_loop_closed:
  assumes "\<forall>doc \<in> set documents.
    \<not> truthy (content_text doc) \<or> (\<exists>s. content_text doc = PStr s)"
  shows "chunks_loop sp documents acc = Inr (acc @ concat (map (chunks_of sp) documents))"
proof -
  from chunks_loop_returns [OF assms] obtain chunks
    where "chunks_loop sp documents acc = Inr chunks" by blast
  with chunks_loop_Inr [OF this] show ?thesis by simp
qed

lemma chunk_origin:
  assumes "c \<in> set (chunks_of sp doc)"
  shows "\<exists>s. s \<noteq> [] \<and> content_text doc = PStr s \<and>
           page_content c \<in> set (sp (get_text_splitter CHUNK_SIZE CHUNK_OVERLAP) s) \<and>
           metadata c = doc_metadata doc"
  using assms
  by (cases "content_text doc") (auto simp: chunks_of_def split: if_splits)

lemma content_text_cases:
  "content_text doc =
     (if truthy (dict_get doc ''full_text'') then dict_get doc ''full_text''
      else dict_get doc ''text'')"
  by (simp add: content_text_def py_or_def)

lemma chunks_of_selected:
  "chunks_of sp doc =
     (case (if truthy (dict_get doc ''full_text'') then dict_get doc ''full_text''
            else dict_get doc ''text'') of
        PStr s \<Rightarrow>
          map (\<lambda>piece. \<lparr>page_content = piece,
                 metadata = filter (\<lambda>(k, v). k \<noteq> ''text'' \<and> k \<noteq> ''full_text'') doc\<rparr>)
            (if s = [] then [] else sp (get_text_splitter CHUNK_SIZE CHUNK_OVERLAP) s)
      | _ \<Rightarrow> [])"
proof -
  have "doc_metadata doc = filter (\<lambda>(k, v). k \<noteq> ''text'' \<and> k \<noteq> ''full_text'') doc"
    by (simp add: doc_metadata_def)
  then show ?thesis
    by (simp add: chunks_of_def content_text_cases split: pyval.split)
qed

lemma chunks_loop_skip:
  "\<not> truthy (content_text doc) \<Longrightarrow>
     chunks_loop sp (before @ doc # after) acc = chunks_loop sp (before @ after) acc"
proof (induction before arbitrary: acc)
  case Nil
  then show ?case by simp
next
  case (Cons d before)
  then show ?case
    by (cases "content_text d") simp_all
qed

lemma unique_sources_foldl:
  "foldl (\<lambda>acc doc. insert (citation doc) acc) A ds = A \<union> citation ` set ds"
  by (induction ds arbitrary: A) auto

lemma unique_sources_image: "unique_sources ds = citation ` set ds"
  by (simp add: unique_sources_def unique_sources_foldl)

section \<open>The claims about the chunker and the source list\<close>

text \<open>
  Claim C8, as the code has it. Whenever \<open>split_text_into_chunks\<close> returns, what it
  returns is, record by record and in the order of the records, the chunks of each
  input record; and it returns whenever the selected content of every record is
  false or a string. The chunks of a record are these: the text that is split is
  the record's \<open>full_text\<close> when that value is true (present and not empty), else
  its \<open>text\<close>; when that is a non-empty string there is one chunk for every piece
  the splitter returns for it, in order, each with the record's fields, in order,
  without exactly \<open>text\<close> and \<open>full_text\<close> as metadata; otherwise the record
  contributes no chunk, and the result is the same without it. (The claim says "if
  present": a \<open>full_text\<close> that is present and empty is not selected, see the
  counterexample.)
\<close>

theorem split_text_into_chunks_selection_metadata:
  "(split_text_into_chunks sp documents = Inr chunks \<longrightarrow>
      chunks = concat (map (chunks_of sp) documents)) \<and>
   ((\<forall>doc \<in> set documents.
        \<not> truthy (content_text doc) \<or> (\<exists>s. content_text doc = PStr s)) \<longrightarrow>
      split_text_into_chunks sp documents = Inr (concat (map (chunks_of sp) documents))) \<and>
   content_text doc0 =
     (if truthy (dict_get doc0 ''full_text'') then dict_get doc0 ''full_text''
      else dict_get doc0 ''text'') \<and>
   chunks_of sp doc0 =
     (case (if truthy (dict_get doc0 ''full_text'') then dict_get doc0 ''full_text''
            else dict_get doc0 ''text'') of
        PStr s \<Rightarrow>
          map (\<lambda>piece. \<lparr>page_content = piece,
                 metadata = filter (\<lambda>(k, v). k \<noteq> ''text'' \<and> k \<noteq> ''full_text'') doc0\<rparr>)
            (if s = [] then [] else sp (get_text_splitter CHUNK_SIZE CHUNK_OVERLAP) s)
      | _ \<Rightarrow> []) \<and>
   map_of (filter (\<lambda>(k, v). k \<noteq> ''text'' \<and> k \<noteq> ''full_text'') doc0) =
     map_of doc0 |` (- {''text'', ''full_text''}) \<and>
   (\<not> truthy (dict_get doc0 ''full_text'') \<and> \<not> truthy (dict_get doc0 ''text'') \<longrightarrow>
      chunks_of sp doc0 = [] \<and>
      split_text_into_chunks sp (before @ doc0 # after) =
      split_text_into_chunks sp (before @ after))"
proof (intro conjI impI)
  assume "split_text_into_chunks sp documents = Inr chunks"
  then show "chunks = concat (map (chunks_of sp) documents)"
    using chunks_loop_Inr [of sp documents "[]" chunks]
    by (simp add: split_text_into_chunks_def)
next
  assume "\<forall>doc \<in> set documents.
    \<not> truthy (content_text doc) \<or> (\<exists>s. content_text doc = PStr s)"
  then show "split_text_into_chunks sp documents = Inr (concat (map (chunks_of sp) documents))"
    using chunks_loop_closed [of documents sp "[]"]
    by (simp add: split_text_into_chunks_def)
next
  show "content_text doc0 =
     (if truthy (dict_get doc0 ''full_text'') then dict_get doc0 ''full_text''
      else dict_get doc0 ''text'')"
    by (rule content_text_cases)
next
  show "chunks_of sp doc0 =
     (case (if truthy (dict_get doc0 ''full_text'') then dict_get doc0 ''full_text''
            else dict_get doc0 ''text'') of
        PStr s \<Rightarrow>
          map (\<lambda>piece. \<lparr>page_content = piece,
                 metadata = filter (\<lambda>(k, v). k \<noteq> ''text'' \<and> k \<noteq> ''full_text'') doc0\<rparr>)
            (if s = [] then [] else sp (get_text_splitter CHUNK_SIZE CHUNK_OVERLAP) s)
      | _ \<Rightarrow> [])"
    by (rule chunks_of_selected)
next
  have "doc_metadata doc0 = filter (\<lambda>(k, v). k \<noteq> ''text'' \<and> k \<noteq> ''full_text'') doc0"
    by (simp add: doc_metadata_def)
  with map_of_doc_metadata [of doc0]
  show "map_of (filter (\<lambda>(k, v). k \<noteq> ''text'' \<and> k \<noteq> ''full_text'') doc0) =
     map_of doc0 |` (- {''text'', ''full_text''})"
    by simp
next
  assume "\<not> truthy (dict_get doc0 ''full_text'') \<and> \<not> truthy (dict_get doc0 ''text'')"
  then have f: "\<not> truthy (content_text doc0)"
    by (simp add: content_text_cases)
  then show "chunks_of sp doc0 = []"
    by (cases "content_text doc0") (simp_all add: chunks_of_def)
  from f show "split_text_into_chunks sp (before @ doc0 # after) =
      split_text_into_chunks sp (before @ after)"
    by (simp add: split_text_into_chunks_def chunks_loop_skip)
qed

text \<open>
  The theorem at three records: a web record with a title and a text, a record with
  neither text field, which is skipped, and a paper with both text fields, of which
  \<open>full_text\<close> is split. The splitter here cuts a text into pieces of two characters.
\<close>

fun pieces_of_two :: "string \<Rightarrow> string list" where
  "pieces_of_two (a # b # c # cs) = [a, b] # pieces_of_two (c # cs)"
| "pieces_of_two s = [s]"

definition three_records :: "pydict list" where
  "three_records =
     [[(''title'', PStr ''T''), (''text'', PStr ''abc'')],
      [(''title'', PStr ''U'')],
      [(''path'', PStr ''p''), (''full_text'', PStr ''wxyz''), (''text'', PStr ''w'')]]"

theorem split_text_into_chunks_selection_metadata_witness:
  "map content_text three_records = [PStr ''abc'', PNone, PStr ''wxyz''] \<and>
   split_text_into_chunks (\<lambda>cfg. pieces_of_two) three_records =
     Inr [\<lparr>page_content = ''ab'', metadata = [(''title'', PStr ''T'')]\<rparr>,
          \<lparr>page_content = ''c'', metadata = [(''title'', PStr ''T'')]\<rparr>,
          \<lparr>page_content = ''wx'', metadata = [(''path'', PStr ''p'')]\<rparr>,
          \<lparr>page_content = ''yz'', metadata = [(''path'', PStr ''p'')]\<rparr>] \<and>
   \<not> truthy (dict_get [(''title'', PStr ''U'')] ''full_text'') \<and>
   \<not> truthy (dict_get [(''title'', PStr ''U'')] ''text'') \<and>
   chunks_of (\<lambda>cfg. pieces_of_two) [(''title'', PStr ''U'')] = [] \<and>
   split_text_into_chunks (\<lambda>cfg. pieces_of_two)
     ([[(''title'', PStr ''T''), (''text'', PStr ''abc'')]] @ [(''title'', PStr ''U'')] # []) =
   split_text_into_chunks (\<lambda>cfg. pieces_of_two)
     ([[(''title'', PStr ''T''), (''text'', PStr ''abc'')]] @ [])"
proof -
  let ?sp = "\<lambda>cfg :: splitter. pieces_of_two"
  have contents: "map content_text three_records = [PStr ''abc'', PNone, PStr ''wxyz'']"
    by (simp add: three_records_def content_text_def py_or_def dict_get_def
        dict_get_default_def)
  have strings: "\<forall>doc \<in> set three_records.
      \<not> truthy (content_text doc) \<or> (\<exists>s. content_text doc = PStr s)"
    by (simp add: three_records_def content_text_def py_or_def dict_get_def
        dict_get_default_def)
  have neither: "\<not> truthy (dict_get [(''title'', PStr ''U'')] ''full_text'') \<and>
      \<not> truthy (dict_get [(''title'', PStr ''U'')] ''text'')"
    by (simp add: dict_get_def dict_get_default_def)
  have closed: "concat (map (chunks_of ?sp) three_records) =
     [\<lparr>page_content = ''ab'', metadata = [(''title'', PStr ''T'')]\<rparr>,
      \<lparr>page_content = ''c'', metadata = [(''title'', PStr ''T'')]\<rparr>,
      \<lparr>page_content = ''wx'', metadata = [(''path'', PStr ''p'')]\<rparr>,
      \<lparr>page_content = ''yz'', metadata = [(''path'', PStr ''p'')]\<rparr>]"
    by (simp add: three_records_def chunks_of_def content_text_def py_or_def dict_get_def
        dict_get_default_def doc_metadata_def)
  note inst = split_text_into_chunks_selection_metadata
    [of ?sp three_records "concat (map (chunks_of ?sp) three_records)"
        "[(''title'', PStr ''U'')]" "[[(''title'', PStr ''T''), (''text'', PStr ''abc'')]]" "[]"]
  from inst strings
  have "split_text_into_chunks ?sp three_records =
      Inr (concat (map (chunks_of ?sp) three_records))"
    by blast
  with closed have ret: "split_text_into_chunks ?sp three_records =
     Inr [\<lparr>page_content = ''ab'', metadata = [(''title'', PStr ''T'')]\<rparr>,
          \<lparr>page_content = ''c'', metadata = [(''title'', PStr ''T'')]\<rparr>,
          \<lparr>page_content = ''wx'', metadata = [(''path'', PStr ''p'')]\<rparr>,
          \<lparr>page_content = ''yz'', metadata = [(''path'', PStr ''p'')]\<rparr>]"
    by simp
  from inst neither
  have skip: "chunks_of ?sp [(''title'', PStr ''U'')] = [] \<and>
     split_text_into_chunks ?sp
       ([[(''title'', PStr ''T''), (''text'', PStr ''abc'')]] @ [(''title'', PStr ''U'')] # []) =
     split_text_into_chunks ?sp
       ([[(''title'', PStr ''T''), (''text'', PStr ''abc'')]] @ [])"
    by blast
  from contents ret neither skip show ?thesis
    by blast
qed

text \<open>
  The claim as worded fails on a record whose \<open>full_text\<close> is present and empty: the
  wording selects the empty \<open>full_text\<close> (and so no chunk); the code selects \<open>text\<close>
  and chunks it.
\<close>

theorem split_text_into_chunks_present_counterexample:
  "content_text_spec [(''full_text'', PStr []), (''text'', PStr ''abc'')] = PStr [] \<and>
   content_text [(''full_text'', PStr []), (''text'', PStr ''abc'')] = PStr ''abc'' \<and>
   split_text_into_chunks (\<lambda>cfg s. [s])
     [[(''full_text'', PStr []), (''text'', PStr ''abc'')]] =
     Inr [\<lparr>page_content = ''abc'', metadata = []\<rparr>]"
  by (simp add: split_text_into_chunks_def content_text_def content_text_spec_def py_or_def
      dict_get_def dict_get_default_def split_documents_def doc_metadata_def)

text \<open>
  Claim C3. Whenever \<open>split_text_into_chunks\<close> returns, what it returns is, record by
  record and in the order of the records, the chunks of each input record, and every
  chunk of a record has that record's fields without \<open>text\<close> and \<open>full_text\<close> as
  metadata: so it has the \<open>title\<close>, \<open>source\<close>, \<open>url\<close> and \<open>path\<close> entries of the
  record it is derived from, and enough provenance for a citation whenever that
  record has. The source list of an answer holds one triple for every retrieved
  document and nothing else, and the triple of a document is its metadata's title,
  source and url (else path), with \<open>Untitled Document\<close>, \<open>Unknown Source\<close> and \<open>N/A\<close>
  in place of an absent field.
\<close>

theorem chunk_provenance_citation_fallback:
  "(split_text_into_chunks sp documents = Inr chunks \<longrightarrow>
      chunks = concat (map (chunks_of sp) documents)) \<and>
   (\<forall>c \<in> set (chunks_of sp doc).
       metadata c = filter (\<lambda>(k, v). k \<noteq> ''text'' \<and> k \<noteq> ''full_text'') doc \<and>
       map_of (metadata c) ''title'' = map_of doc ''title'' \<and>
       map_of (metadata c) ''source'' = map_of doc ''source'' \<and>
       map_of (metadata c) ''url'' = map_of doc ''url'' \<and>
       map_of (metadata c) ''path'' = map_of doc ''path'' \<and>
       (has_provenance doc \<longrightarrow> has_provenance (metadata c))) \<and>
   (\<forall>d \<in> set source_documents. citation d \<in> unique_sources source_documents) \<and>
   (\<forall>t \<in> unique_sources source_documents. \<exists>d \<in> set source_documents. t = citation d) \<and>
   fst (citation d) =
     (case map_of (metadata d) ''title'' of
        Some v \<Rightarrow> v | None \<Rightarrow> PStr ''Untitled Document'') \<and>
   fst (snd (citation d)) =
     (case map_of (metadata d) ''source'' of
        Some v \<Rightarrow> v | None \<Rightarrow> PStr ''Unknown Source'') \<and>
   snd (snd (citation d)) =
     (case map_of (metadata d) ''url'' of
        Some v \<Rightarrow> v
      | None \<Rightarrow> (case map_of (metadata d) ''path'' of Some v \<Rightarrow> v | None \<Rightarrow> PStr ''N/A''))"
proof -
  have closed: "chunks = concat (map (chunks_of sp) documents)"
    if "split_text_into_chunks sp documents = Inr chunks"
    using that chunks_loop_Inr [of sp documents "[]" chunks]
    by (simp add: split_text_into_chunks_def)
  have chunk: "metadata c = filter (\<lambda>(k, v). k \<noteq> ''text'' \<and> k \<noteq> ''full_text'') doc \<and>
       map_of (metadata c) ''title'' = map_of doc ''title'' \<and>
       map_of (metadata c) ''source'' = map_of doc ''source'' \<and>
       map_of (metadata c) ''url'' = map_of doc ''url'' \<and>
       map_of (metadata c) ''path'' = map_of doc ''path'' \<and>
       (has_provenance doc \<longrightarrow> has_provenance (metadata c))"
    if c: "c \<in> set (chunks_of sp doc)" for c
  proof -
    from chunk_origin [OF c] have md: "metadata c = doc_metadata doc"
      by blast
    then have m: "map_of (metadata c) = map_of doc |` (- {''text'', ''full_text''})"
      by (simp add: map_of_doc_metadata)
    have "map_of (metadata c) ''title'' = map_of doc ''title''"
      "map_of (metadata c) ''source'' = map_of doc ''source''"
      "map_of (metadata c) ''url'' = map_of doc ''url''"
      "map_of (metadata c) ''path'' = map_of doc ''path''"
      by (simp_all add: m restrict_map_def)
    moreover from md
    have "metadata c = filter (\<lambda>(k, v). k \<noteq> ''text'' \<and> k \<noteq> ''full_text'') doc"
      by (simp add: doc_metadata_def)
    ultimately show ?thesis
      by (simp add: has_provenance_def)
  qed
  have cit: "fst (citation d) =
     (case map_of (metadata d) ''title'' of
        Some v \<Rightarrow> v | None \<Rightarrow> PStr ''Untitled Document'') \<and>
   fst (snd (citation d)) =
     (case map_of (metadata d) ''source'' of
        Some v \<Rightarrow> v | None \<Rightarrow> PStr ''Unknown Source'') \<and>
   snd (snd (citation d)) =
     (case map_of (metadata d) ''url'' of
        Some v \<Rightarrow> v
      | None \<Rightarrow> (case map_of (metadata d) ''path'' of Some v \<Rightarrow> v | None \<Rightarrow> PStr ''N/A''))"
    by (simp add: citation_def dict_get_default_def)
  have us: "(\<forall>d \<in> set source_documents. citation d \<in> unique_sources source_documents) \<and>
   (\<forall>t \<in> unique_sources source_documents. \<exists>d \<in> set source_documents. t = citation d)"
    by (auto simp: unique_sources_image)
  from closed chunk cit us show ?thesis
    by blast
qed

text \<open>
  The theorem at a web record and a paper, each with its own three provenance
  fields, and at a retrieved document whose metadata has no title, no source, and a
  path but no url.
\<close>

definition cited_records :: "pydict list" where
  "cited_records =
     [[(''url'', PStr ''u''), (''title'', PStr ''T''), (''source'', PStr ''web_page''),
       (''text'', PStr ''abc'')],
      [(''path'', PStr ''p''), (''title'', PStr ''P''), (''source'', PStr ''pdf_paper''),
       (''full_text'', PStr ''de'')]]"

theorem chunk_provenance_citation_fallback_witness:
  "split_text_into_chunks (\<lambda>cfg s. [s]) cited_records =
     Inr [\<lparr>page_content = ''abc'',
           metadata = [(''url'', PStr ''u''), (''title'', PStr ''T''),
                       (''source'', PStr ''web_page'')]\<rparr>,
          \<lparr>page_content = ''de'',
           metadata = [(''path'', PStr ''p''), (''title'', PStr ''P''),
                       (''source'', PStr ''pdf_paper'')]\<rparr>] \<and>
   \<lparr>page_content = ''de'',
     metadata = [(''path'', PStr ''p''), (''title'', PStr ''P''),
                 (''source'', PStr ''pdf_paper'')]\<rparr> \<in>
     set (chunks_of (\<lambda>cfg s. [s]) (cited_records ! 1)) \<and>
   has_provenance (cited_records ! 1) \<and>
   has_provenance [(''path'', PStr ''p''), (''title'', PStr ''P''),
      (''source'', PStr ''pdf_paper'')] \<and>
   map_of [(''path'', PStr ''p''), (''title'', PStr ''P''), (''source'', PStr ''pdf_paper'')]
     ''title'' = map_of (cited_records ! 1) ''title'' \<and>
   citation \<lparr>page_content = ''abc'', metadata = [(''path'', PStr ''p'')]\<rparr> \<in>
     unique_sources [\<lparr>page_content = ''abc'', metadata = [(''path'', PStr ''p'')]\<rparr>] \<and>
   citation \<lparr>page_content = ''abc'', metadata = [(''path'', PStr ''p'')]\<rparr> =
     (PStr ''Untitled Document'', PStr ''Unknown Source'', PStr ''p'')"
proof -
  let ?sp = "\<lambda>(cfg :: splitter) (s :: string). [s]"
  let ?c1 = "\<lparr>page_content = ''abc'',
           metadata = [(''url'', PStr ''u''), (''title'', PStr ''T''),
                       (''source'', PStr ''web_page'')]\<rparr>"
  let ?c2 = "\<lparr>page_content = ''de'',
           metadata = [(''path'', PStr ''p''), (''title'', PStr ''P''),
                       (''source'', PStr ''pdf_paper'')]\<rparr>"
  let ?r = "\<lparr>page_content = ''abc'', metadata = [(''path'', PStr ''p'')]\<rparr>"
  have ret: "split_text_into_chunks ?sp cited_records = Inr [?c1, ?c2]"
    by (simp add: cited_records_def split_text_into_chunks_def content_text_def py_or_def
        dict_get_def dict_get_default_def split_documents_def doc_metadata_def)
  have c2: "?c2 \<in> set (chunks_of ?sp (cited_records ! 1))"
    by (simp add: cited_records_def chunks_of_def content_text_def py_or_def
        dict_get_def dict_get_default_def doc_metadata_def)
  have prov: "has_provenance (cited_records ! 1)"
    by (simp add: cited_records_def has_provenance_def)
  note inst = chunk_provenance_citation_fallback
    [of ?sp cited_records "[?c1, ?c2]" "cited_records ! 1" "[?r]" ?r]
  from inst c2 prov have "has_provenance (metadata ?c2)"
    "map_of (metadata ?c2) ''title'' = map_of (cited_records ! 1) ''title''"
    by blast+
  moreover from inst have "citation ?r \<in> unique_sources [?r]"
    by simp
  moreover from inst have "citation ?r =
     (PStr ''Untitled Document'', PStr ''Unknown Source'', PStr ''p'')"
    by (simp add: prod_eq_iff)
  ultimately show ?thesis
    using ret c2 prov by simp
qed

section \<open>src/vectorstore.py: rebuilding the index\<close>

text \<open>
  The vector database is an external collaborator. The model keeps of it what
  \<open>create_vector_store\<close> relies on: a collection is a list of entries (id, vector,
  text, metadata), \<open>live\<close> as the open client sees it and \<open>durable\<close> as it is on
  disk; \<open>get\<close> lists the ids, \<open>delete\<close> removes the entries with the given ids,
  \<open>add_documents\<close> embeds each chunk and appends it under a new id, and \<open>persist\<close>
  writes the live entries to disk. Ids are numbers handed out by a counter.
\<close>

record 'v index_entry =
  entry_id :: nat
  entry_vector :: 'v
  entry_text :: string
  entry_metadata :: pydict

record 'v chroma =
  live :: "'v index_entry list"
  durable :: "'v index_entry list"
  next_id :: nat

definition chroma_open :: "'v chroma \<Rightarrow> 'v chroma" where
  "chroma_open db = db\<lparr>live := durable db\<rparr>"

definition vectordb_get :: "'v chroma \<Rightarrow> nat list" where
  "vectordb_get db = map entry_id (live db)"

definition vectordb_delete :: "nat list \<Rightarrow> 'v chroma \<Rightarrow> 'v chroma" where
  "vectordb_delete ids db = db\<lparr>live := filter (\<lambda>e. entry_id e \<notin> set ids) (live db)\<rparr>"

definition vectordb_persist :: "'v chroma \<Rightarrow> 'v chroma" where
  "vectordb_persist db = db\<lparr>durable := live db\<rparr>"

definition new_entries :: "(string \<Rightarrow> 'v) \<Rightarrow> nat \<Rightarrow> document list \<Rightarrow> 'v index_entry list" where
  "new_entries emb n chunks =
     map (\<lambda>(i, c). \<lparr>entry_id = i, entry_vector = emb (page_content c),
                     entry_text = page_content c, entry_metadata = metadata c\<rparr>)
       (zip [n ..< n + length chunks] chunks)"

definition vectordb_add_documents ::
  "(string \<Rightarrow> 'v) \<Rightarrow> document list \<Rightarrow> 'v chroma \<Rightarrow> 'v chroma" where
  "vectordb_add_documents emb chunks db =
     db\<lparr>live := live db @ new_entries emb (next_id db) chunks,
        next_id := next_id db + length chunks\<rparr>"

text \<open>
  Which of the five calls to the database raises in one run of
  \<open>create_vector_store\<close>, if any, with the exception's message.
\<close>

record chroma_faults =
  get_raises :: "string option"
  delete_raises :: "string option"
  persist_after_delete_raises :: "string option"
  add_documents_raises :: "string option"
  persist_raises :: "string option"

definition no_faults :: chroma_faults where
  "no_faults = \<lparr>get_raises = None, delete_raises = None, persist_after_delete_raises = None,
     add_documents_raises = None, persist_raises = None\<rparr>"

text \<open>
  The \<open>try\<close> block: list the ids and, if there are any, delete them and persist. An
  exception of any of the three calls is printed by the \<open>except\<close> clause and the
  function goes on with the collection as the call left it.
\<close>

definition delete_existing :: "chroma_faults \<Rightarrow> 'v chroma \<Rightarrow> 'v chroma" where
  "delete_existing f db =
     (case get_raises f of
        Some e \<Rightarrow> db
      | None \<Rightarrow>
          (let ids = vectordb_get db in
           if ids \<noteq> [] then
             (case delete_raises f of
                Some e \<Rightarrow> db
              | None \<Rightarrow>
                  (let db1 = vectordb_delete ids db in
                   case persist_after_delete_raises f of
                     Some e \<Rightarrow> db1
                   | None \<Rightarrow> vectordb_persist db1))
           else db))"

text \<open>
  \<open>create_vector_store\<close>: the collection after the call, and the exception the call
  raises, if any (\<open>add_documents\<close> and the last \<open>persist\<close> are outside the \<open>try\<close>).
\<close>

definition create_vector_store ::
  "chroma_faults \<Rightarrow> (string \<Rightarrow> 'v) \<Rightarrow> document list \<Rightarrow> 'v chroma
     \<Rightarrow> 'v chroma \<times> pyexn option" where
  "create_vector_store f embedding_function chunks db =
     (let vectordb = delete_existing f (chroma_open db) in
      case add_documents_raises f of
        Some e \<Rightarrow> (vectordb, Some (OtherException e))
      | None \<Rightarrow>
          (let vectordb = vectordb_add_documents embedding_function chunks vectordb in
           case persist_raises f of
             Some e \<Rightarrow> (vectordb, Some (OtherException e))
           | None \<Rightarrow> (vectordb_persist vectordb, None)))"

section \<open>Facts about the rebuild\<close>

lemma length_new_entries: "length (new_entries emb n chunks) = length chunks"
  by (simp add: new_entries_def)

lemma delete_all_ids: "filter (\<lambda>e. entry_id e \<notin> set (map entry_id es)) es = []"
  by (induction es) auto

lemma delete_existing_wipes:
  "get_raises f = None \<Longrightarrow> delete_raises f = None \<Longrightarrow> live (delete_existing f db) = []"
  by (cases "live db")
    (auto simp: delete_existing_def vectordb_get_def vectordb_delete_def vectordb_persist_def
      Let_def split: option.splits)

lemma delete_existing_next_id: "next_id (delete_existing f db) = next_id db"
  by (simp add: delete_existing_def vectordb_get_def vectordb_delete_def vectordb_persist_def
      Let_def split: option.splits)

lemma create_vector_store_rebuilds:
  assumes "get_raises f = None" "delete_raises f = None"
    "add_documents_raises f = None" "persist_raises f = None"
  shows "create_vector_store f emb chunks db =
     (\<lparr>live = new_entries emb (next_id db) chunks,
       durable = new_entries emb (next_id db) chunks,
       next_id = next_id db + length chunks\<rparr>, None)"
proof -
  let ?d = "delete_existing f (chroma_open db)"
  have l: "live ?d = []"
    using assms by (simp add: delete_existing_wipes)
  have n: "next_id ?d = next_id db"
    by (simp add: delete_existing_next_id chroma_open_def)
  show ?thesis
    using assms l n
    by (simp add: create_vector_store_def vectordb_add_documents_def vectordb_persist_def)
qed

text \<open>
  Claim C1, as the code has it. In every call in which listing the ids, deleting
  them, adding the chunks and the last persist do not raise, \<open>create_vector_store\<close>
  returns with a collection that holds, live and on disk, exactly one new entry per
  supplied chunk, in order, with the chunk's text, metadata and embedding, and none
  of the entries it held before; so a second such run over the same chunks leaves as
  many entries as the first, the number of chunks. (When listing or deleting raises,
  the exception is printed and the chunks are added to what was there: see the
  counterexample.)
\<close>

theorem create_vector_store_full_rebuild:
  "get_raises f = None \<and> delete_raises f = None \<and> add_documents_raises f = None \<and>
   persist_raises f = None \<and> get_raises g = None \<and> delete_raises g = None \<and>
   add_documents_raises g = None \<and> persist_raises g = None \<longrightarrow>
     snd (create_vector_store f emb chunks db) = None \<and>
     live (fst (create_vector_store f emb chunks db)) = new_entries emb (next_id db) chunks \<and>
     durable (fst (create_vector_store f emb chunks db)) = new_entries emb (next_id db) chunks \<and>
     map entry_text (live (fst (create_vector_store f emb chunks db))) =
       map page_content chunks \<and>
     map entry_metadata (live (fst (create_vector_store f emb chunks db))) =
       map metadata chunks \<and>
     length (live (fst (create_vector_store f emb chunks db))) = length chunks \<and>
     length (durable (fst (create_vector_store g emb chunks
        (fst (create_vector_store f emb chunks db))))) =
       length (durable (fst (create_vector_store f emb chunks db)))"
proof (intro impI)
  assume a: "get_raises f = None \<and> delete_raises f = None \<and> add_documents_raises f = None \<and>
   persist_raises f = None \<and> get_raises g = None \<and> delete_raises g = None \<and>
   add_documents_raises g = None \<and> persist_raises g = None"
  have etexts: "map entry_text (new_entries emb n chunks) = map page_content chunks" for n
    by (rule nth_equalityI) (simp_all add: new_entries_def)
  have md: "map entry_metadata (new_entries emb n chunks) = map metadata chunks" for n
    by (rule nth_equalityI) (simp_all add: new_entries_def)
  from a have f: "create_vector_store f emb chunks db =
     (\<lparr>live = new_entries emb (next_id db) chunks,
       durable = new_entries emb (next_id db) chunks,
       next_id = next_id db + length chunks\<rparr>, None)"
    by (simp add: create_vector_store_rebuilds)
  from a have g: "create_vector_store g emb chunks (fst (create_vector_store f emb chunks db)) =
     (\<lparr>live = new_entries emb (next_id (fst (create_vector_store f emb chunks db))) chunks,
       durable = new_entries emb (next_id (fst (create_vector_store f emb chunks db))) chunks,
       next_id = next_id (fst (create_vector_store f emb chunks db)) + length chunks\<rparr>, None)"
    by (simp add: create_vector_store_rebuilds)
  show "snd (create_vector_store f emb chunks db) = None \<and>
     live (fst (create_vector_store f emb chunks db)) = new_entries emb (next_id db) chunks \<and>
     durable (fst (create_vector_store f emb chunks db)) = new_entries emb (next_id db) chunks \<and>
     map entry_text (live (fst (create_vector_store f emb chunks db))) =
       map page_content chunks \<and>
     map entry_metadata (live (fst (create_vector_store f emb chunks db))) =
       map metadata chunks \<and>
     length (live (fst (create_vector_store f emb chunks db))) = length chunks \<and>
     length (durable (fst (create_vector_store g emb chunks
        (fst (create_vector_store f emb chunks db))))) =
       length (durable (fst (create_vector_store f emb chunks db)))"
    unfolding g unfolding f
    by (simp add: etexts md length_new_entries)
qed

text \<open>
  The theorem at a collection that holds one old entry, rebuilt twice from two chunks.
\<close>

theorem create_vector_store_full_rebuild_witness:
  "get_raises no_faults = None \<and> delete_raises no_faults = None \<and>
   add_documents_raises no_faults = None \<and> persist_raises no_faults = None \<and>
   snd (create_vector_store no_faults length
     [\<lparr>page_content = ''ab'', metadata = []\<rparr>, \<lparr>page_content = ''c'', metadata = []\<rparr>]
     \<lparr>live = [], durable = [\<lparr>entry_id = 0, entry_vector = 3, entry_text = ''old'',
        entry_metadata = []\<rparr>], next_id = 1\<rparr>) = None \<and>
   live (fst (create_vector_store no_faults length
     [\<lparr>page_content = ''ab'', metadata = []\<rparr>, \<lparr>page_content = ''c'', metadata = []\<rparr>]
     \<lparr>live = [], durable = [\<lparr>entry_id = 0, entry_vector = 3, entry_text = ''old'',
        entry_metadata = []\<rparr>], next_id = 1\<rparr>)) =
     [\<lparr>entry_id = 1, entry_vector = 2, entry_text = ''ab'', entry_metadata = []\<rparr>,
      \<lparr>entry_id = 2, entry_vector = 1, entry_text = ''c'', entry_metadata = []\<rparr>] \<and>
   length (durable (fst (create_vector_store no_faults length
     [\<lparr>page_content = ''ab'', metadata = []\<rparr>, \<lparr>page_content = ''c'', metadata = []\<rparr>]
     (fst (create_vector_store no_faults length
       [\<lparr>page_content = ''ab'', metadata = []\<rparr>, \<lparr>page_content = ''c'', metadata = []\<rparr>]
       \<lparr>live = [], durable = [\<lparr>entry_id = 0, entry_vector = 3, entry_text = ''old'',
          entry_metadata = []\<rparr>], next_id = 1\<rparr>))))) = 2"
proof -
  let ?chunks = "[\<lparr>page_content = ''ab'', metadata = []\<rparr>, \<lparr>page_content = ''c'', metadata = []\<rparr>]"
  let ?db = "\<lparr>live = [], durable = [\<lparr>entry_id = 0, entry_vector = 3::nat, entry_text = ''old'',
        entry_metadata = []\<rparr>], next_id = 1\<rparr>"
  have h: "get_raises no_faults = None \<and> delete_raises no_faults = None \<and>
     add_documents_raises no_faults = None \<and> persist_raises no_faults = None"
    by (simp add: no_faults_def)
  have ne: "new_entries length (next_id ?db) ?chunks =
     [\<lparr>entry_id = 1, entry_vector = 2, entry_text = ''ab'', entry_metadata = []\<rparr>,
      \<lparr>entry_id = 2, entry_vector = 1, entry_text = ''c'', entry_metadata = []\<rparr>]"
    by (simp add: new_entries_def upt_rec)
  note inst = create_vector_store_full_rebuild [of no_faults no_faults length ?chunks ?db]
  from inst h ne show ?thesis
    by simp
qed

text \<open>
  The claim as worded ("for every call") fails when listing the ids raises: the
  \<open>except\<close> clause prints the exception, nothing is deleted, and the chunk is added
  to the old entry. A rebuild of a one-chunk index then leaves two entries.
\<close>

theorem create_vector_store_swallowed_error_counterexample:
  "create_vector_store (no_faults\<lparr>get_raises := Some ''database is locked''\<rparr>) length
     [\<lparr>page_content = ''ab'', metadata = []\<rparr>]
     (fst (create_vector_store no_faults length [\<lparr>page_content = ''ab'', metadata = []\<rparr>]
        \<lparr>live = [], durable = [], next_id = 0\<rparr>)) =
   (\<lparr>live = [\<lparr>entry_id = 0, entry_vector = 2, entry_text = ''ab'', entry_metadata = []\<rparr>,
             \<lparr>entry_id = 1, entry_vector = 2, entry_text = ''ab'', entry_metadata = []\<rparr>],
     durable = [\<lparr>entry_id = 0, entry_vector = 2, entry_text = ''ab'', entry_metadata = []\<rparr>,
                \<lparr>entry_id = 1, entry_vector = 2, entry_text = ''ab'', entry_metadata = []\<rparr>],
     next_id = 2\<rparr>, None) \<and>
   length (live (fst (create_vector_store no_faults length
      [\<lparr>page_content = ''ab'', metadata = []\<rparr>] \<lparr>live = [], durable = [], next_id = 0\<rparr>))) = 1"
  by (simp add: create_vector_store_def delete_existing_def chroma_open_def vectordb_get_def
      vectordb_add_documents_def vectordb_persist_def new_entries_def no_faults_def)

section \<open>src/rag\_pipeline.py and streamlit\_app.py: building the chain\<close>

text \<open>
  What a run observes of its environment: the two environment variables, whether the
  index directory \<open>./chroma_db\<close> exists, and whether loading the embedding model or
  constructing the language-model client raises. What a run does that others can
  see is a list of events, in order.
\<close>

record world =
  GROQ_API_KEY :: "string option"
  GROQ_MODEL_env :: "string option"
  chroma_db_exists :: bool
  embedding_load_raises :: "string option"
  llm_init_raises :: "string option"

datatype event =
    LoadEmbeddingModel
  | OpenChroma
  | ConfigureRetriever nat
  | InitLLM string
  | BuildChain
  | InvokeChain string
  | StError string
  | StWarning string

text \<open>The chain, as far as the claims read it (the prompt template is left out).\<close>

record qa_chain =
  llm_model :: string
  retriever_k :: nat
  return_source_documents :: bool

definition CHROMA_DB_PATH :: string where
  "CHROMA_DB_PATH = ''./chroma_db''"

definition K_RETRIEVAL :: nat where
  "K_RETRIEVAL = 5"

text \<open>\<open>os.getenv("GROQ_MODEL", "llama-3.1-8b-instant")\<close>\<close>

definition GROQ_MODEL :: "world \<Rightarrow> string" where
  "GROQ_MODEL w = (case GROQ_MODEL_env w of None \<Rightarrow> ''llama-3.1-8b-instant'' | Some m \<Rightarrow> m)"

definition chroma_not_found_error :: string where
  "chroma_not_found_error =
     ''ChromaDB not found at '' @ CHROMA_DB_PATH @ ''. Please run src/vectorstore.py first.''"

text \<open>
  \<open>build_rag_chain\<close>: the events of the call and what it returns or raises. The
  embedding model is loaded first; the check of the index directory comes second and
  raises \<open>FileNotFoundError\<close>; the language-model client is constructed fourth.
\<close>

definition build_rag_chain :: "world \<Rightarrow> event list \<times> (pyexn + qa_chain)" where
  "build_rag_chain w =
     (case embedding_load_raises w of
        Some e \<Rightarrow> ([LoadEmbeddingModel], Inl (OtherException e))
      | None \<Rightarrow>
          if \<not> chroma_db_exists w then
            ([LoadEmbeddingModel], Inl (FileNotFoundError chroma_not_found_error))
          else
            (case llm_init_raises w of
               Some e \<Rightarrow>
                 ([LoadEmbeddingModel, OpenChroma, ConfigureRetriever K_RETRIEVAL,
                   InitLLM (GROQ_MODEL w)], Inl (OtherException e))
             | None \<Rightarrow>
                 ([LoadEmbeddingModel, OpenChroma, ConfigureRetriever K_RETRIEVAL,
                   InitLLM (GROQ_MODEL w), BuildChain],
                  Inr \<lparr>llm_model = GROQ_MODEL w, retriever_k = K_RETRIEVAL,
                       return_source_documents = True\<rparr>)))"

definition api_key_missing_message :: string where
  "api_key_missing_message = ''GROQ_API_KEY is not set in your environment or .env file.''"

definition chroma_missing_warning :: string where
  "chroma_missing_warning =
     ''ChromaDB not found. Please run '' @ [CHR 0x27] @ ''python -m src.vectorstore'' @
     [CHR 0x27] @ '' first to create the knowledge base from your processed data.''"

text \<open>\<open>not GROQ_API_KEY\<close>: the variable is unset or empty.\<close>

definition api_key_missing :: "world \<Rightarrow> bool" where
  "api_key_missing w = (case GROQ_API_KEY w of None \<Rightarrow> True | Some k \<Rightarrow> k = [])"

text \<open>
  \<open>load_rag_chain\<close> of the application: the credential is checked first, the index
  directory second, and only then is \<open>build_rag_chain\<close> called, any exception of which
  is shown as an error.
\<close>

definition load_rag_chain :: "world \<Rightarrow> event list \<times> qa_chain option" where
  "load_rag_chain w =
     (if api_key_missing w then ([StError api_key_missing_message], None)
      else if \<not> chroma_db_exists w then ([StWarning chroma_missing_warning], None)
      else
        (case build_rag_chain w of
           (evs, Inl e) \<Rightarrow>
             (evs @ [StError (''Error during RAG chain initialization: '' @ exn_str e)], None)
         | (evs, Inr chain) \<Rightarrow> (evs, Some chain)))"

text \<open>
  One run of the application script with a question typed into the chat box: the
  chain is loaded; without a chain the script stops before the chat; with one, the
  question is sent through it (retrieval, then the language model).
\<close>

definition chat_turn :: "world \<Rightarrow> string \<Rightarrow> event list" where
  "chat_turn w prompt =
     (case load_rag_chain w of
        (evs, None) \<Rightarrow> evs
      | (evs, Some chain) \<Rightarrow> evs @ [InvokeChain prompt])"

text \<open>An event in which the language model is constructed or called.\<close>

fun llm_event :: "event \<Rightarrow> bool" where
  "llm_event (InitLLM m) = True"
| "llm_event (InvokeChain p) = True"
| "llm_event _ = False"

text \<open>
  Claim C4, as the code has it. If the index directory does not exist,
  \<open>build_rag_chain\<close> raises, and never constructs the language model; what it raises
  is the file-not-found error whenever the embedding model, which is loaded before
  the check, loads. A question asked in that state reaches no language model, no
  chain is returned, and when the credential is set the run shows exactly the
  index-not-found warning. (Without the credential the run shows the credential
  error and not the warning: see the counterexample.)
\<close>

theorem build_rag_chain_missing_index:
  "\<not> chroma_db_exists w \<longrightarrow>
     (\<exists>e. snd (build_rag_chain w) = Inl e) \<and>
     list_all (\<lambda>ev. \<not> llm_event ev) (fst (build_rag_chain w)) \<and>
     (embedding_load_raises w = None \<longrightarrow>
        snd (build_rag_chain w) = Inl (FileNotFoundError chroma_not_found_error)) \<and>
     snd (load_rag_chain w) = None \<and>
     list_all (\<lambda>ev. \<not> llm_event ev) (chat_turn w prompt) \<and>
     (\<not> api_key_missing w \<longrightarrow> chat_turn w prompt = [StWarning chroma_missing_warning])"
  by (auto simp: build_rag_chain_def load_rag_chain_def chat_turn_def split: option.splits)

text \<open>The theorem at a world with the credential set and no index directory.\<close>

theorem build_rag_chain_missing_index_witness:
  "\<not> chroma_db_exists \<lparr>GROQ_API_KEY = Some ''k'', GROQ_MODEL_env = None,
        chroma_db_exists = False, embedding_load_raises = None, llm_init_raises = None\<rparr> \<and>
   build_rag_chain \<lparr>GROQ_API_KEY = Some ''k'', GROQ_MODEL_env = None,
        chroma_db_exists = False, embedding_load_raises = None, llm_init_raises = None\<rparr> =
     ([LoadEmbeddingModel], Inl (FileNotFoundError chroma_not_found_error)) \<and>
   chat_turn \<lparr>GROQ_API_KEY = Some ''k'', GROQ_MODEL_env = None,
        chroma_db_exists = False, embedding_load_raises = None, llm_init_raises = None\<rparr>
     ''What is RAG?'' = [StWarning chroma_missing_warning]"
proof -
  let ?w = "\<lparr>GROQ_API_KEY = Some ''k'', GROQ_MODEL_env = None,
        chroma_db_exists = False, embedding_load_raises = None, llm_init_raises = None\<rparr>"
  have h: "\<not> chroma_db_exists ?w" "embedding_load_raises ?w = None" "\<not> api_key_missing ?w"
    by (simp_all add: api_key_missing_def)
  have evs: "fst (build_rag_chain ?w) = [LoadEmbeddingModel]"
    by (simp add: build_rag_chain_def)
  note inst = build_rag_chain_missing_index [of ?w "''What is RAG?''"]
  from inst h evs show ?thesis
    by (simp add: prod_eq_iff)
qed

text \<open>
  The claim as worded fails in a world with no index directory where the credential
  is not set and the embedding model does not load: the question is answered with
  the credential error, not with index-not-found, and \<open>build_rag_chain\<close> raises the
  loader's exception, not the file-not-found error.
\<close>

theorem missing_index_report_counterexample:
  "chat_turn \<lparr>GROQ_API_KEY = None, GROQ_MODEL_env = None, chroma_db_exists = False,
       embedding_load_raises = Some ''offline'', llm_init_raises = None\<rparr> ''What is RAG?'' =
     [StError api_key_missing_message] \<and>
   StWarning chroma_missing_warning \<notin> set (chat_turn \<lparr>GROQ_API_KEY = None,
       GROQ_MODEL_env = None, chroma_db_exists = False,
       embedding_load_raises = Some ''offline'', llm_init_raises = None\<rparr> ''What is RAG?'') \<and>
   build_rag_chain \<lparr>GROQ_API_KEY = None, GROQ_MODEL_env = None, chroma_db_exists = False,
       embedding_load_raises = Some ''offline'', llm_init_raises = None\<rparr> =
     ([LoadEmbeddingModel], Inl (OtherException ''offline''))"
  by (simp add: chat_turn_def load_rag_chain_def build_rag_chain_def api_key_missing_def)

section \<open>Python string methods\<close>

text \<open>
  Among the code points below 256, \<open>str.isspace\<close> (and the pattern \<open>\s\<close>) holds of
  9 to 13, 28 to 32, 133 and 160; the upper-case letters are A to Z and the
  letters 192 to 222 without the multiplication sign 215, and \<open>str.lower\<close> maps each
  to the letter 32 code points above it.
\<close>

definition newline :: char where
  "newline = CHR 0x0A"

definition is_space :: "char \<Rightarrow> bool" where
  "is_space c = (of_char c \<in> set [9, 10, 11, 12, 13, 28, 29, 30, 31, 32, 133, 160 :: nat])"

definition is_upper :: "char \<Rightarrow> bool" where
  "is_upper c =
     (let n = of_char c :: nat
      in (65 \<le> n \<and> n \<le> 90) \<or> (192 \<le> n \<and> n \<le> 222 \<and> n \<noteq> 215))"

definition lower_char :: "char \<Rightarrow> char" where
  "lower_char c = (if is_upper c then char_of (of_char c + 32 :: nat) else c)"

definition py_lower :: "string \<Rightarrow> string" where
  "py_lower s = map lower_char s"

text \<open>The upper-case partner of a lower-case letter, where it is below 256.\<close>

definition upper_char :: "char \<Rightarrow> char" where
  "upper_char c =
     (let n = of_char c :: nat
      in if (97 \<le> n \<and> n \<le> 122) \<or> (224 \<le> n \<and> n \<le> 254 \<and> n \<noteq> 247)
         then char_of (n - 32) else c)"

text \<open>\<open>s.strip()\<close>\<close>

definition py_strip :: "string \<Rightarrow> string" where
  "py_strip s = rev (dropWhile is_space (rev (dropWhile is_space s)))"

text \<open>
  \<open>s.split()\<close>: the maximal runs of characters that are not whitespace. The first
  argument is the run being read, reversed.
\<close>

fun split_ws :: "string \<Rightarrow> string \<Rightarrow> string list" where
  "split_ws w [] = (if w = [] then [] else [rev w])"
| "split_ws w (c # cs) =
     (if is_space c then (if w = [] then split_ws [] cs else rev w # split_ws [] cs)
      else split_ws (c # w) cs)"

definition py_split :: "string \<Rightarrow> string list" where
  "py_split s = split_ws [] s"

text \<open>\<open>sep.join(parts)\<close>\<close>

fun py_join :: "string \<Rightarrow> string list \<Rightarrow> string" where
  "py_join sep [] = []"
| "py_join sep [x] = x"
| "py_join sep (x # y # ys) = x @ sep @ py_join sep (y # ys)"

text \<open>\<open>s.split('\n')[0]\<close>: the text before the first line break.\<close>

definition first_line :: "string \<Rightarrow> string" where
  "first_line s = takeWhile (\<lambda>c. c \<noteq> newline) s"

text \<open>
  \<open>s.replace(old, new)\<close> for a non-empty \<open>old\<close> (it is non-empty at every call of the
  repository): the occurrences of \<open>old\<close>, left to right and without overlap.
\<close>

fun py_replace :: "string \<Rightarrow> string \<Rightarrow> string \<Rightarrow> string" where
  "py_replace old new [] = []"
| "py_replace old new (c # cs) =
     (if take (length old) (c # cs) = old
      then new @ py_replace old new (drop (length old - 1) cs)
      else c # py_replace old new cs)"

text \<open>\<open>os.path.basename(path)\<close>: what follows the last slash.\<close>

definition basename :: "string \<Rightarrow> string" where
  "basename p = rev (takeWhile (\<lambda>c. c \<noteq> CHR ''/'') (rev p))"

section \<open>The three section patterns of src/tools/pdf\_scraper.py\<close>

text \<open>
  Each of the three patterns is a prefix, one lazy group \<open>(.*?)\<close> and a suffix,
  compiled with the flags \<open>I\<close>, \<open>M\<close> and \<open>S\<close>. Prefix and suffix are built from
  character sets, \<open>^\<close>, sequence, alternation and the greedy star; the matcher below
  is the backtracking matcher of Python's \<open>re\<close> for these constructs under these
  flags.
\<close>

datatype citem = CChar char | CRange char char | CSpace

datatype rx =
    Eps
  | Bol
  | Chars "citem list"
  | Seq rx rx
  | Alt rx rx
  | Star rx

text \<open>
  Whether a character of the text is in a set, ignoring case (flag \<open>I\<close>): a literal
  matches when both have the same lower case, a range when the character, its lower
  case or its upper case is in it.
\<close>

fun citem_matches :: "char \<Rightarrow> citem \<Rightarrow> bool" where
  "citem_matches c (CChar p) = (lower_char c = lower_char p)"
| "citem_matches c (CRange lo hi) =
     (\<exists>v \<in> set [c, lower_char c, upper_char c].
        (of_char lo :: nat) \<le> of_char v \<and> (of_char v :: nat) \<le> of_char hi)"
| "citem_matches c CSpace = is_space c"

text \<open>
  A position in the text is what is left of it, with whether it is at the start of a
  line (flag \<open>M\<close>: at the start of the text or right after a line break).
  \<open>ends r\<close> lists the positions at which a match of \<open>r\<close> that starts at the given
  position can end, in the order in which backtracking tries them: the left
  alternative first, and for the greedy star one more round before stopping. A round
  of a star that consumes nothing is not repeated.
\<close>

fun ends :: "rx \<Rightarrow> bool \<times> string \<Rightarrow> (bool \<times> string) list" where
  "ends Eps st = [st]"
| "ends Bol st = (if fst st then [st] else [])"
| "ends (Chars items) st =
     (case snd st of
        [] \<Rightarrow> []
      | c # cs \<Rightarrow> if list_ex (citem_matches c) items then [(c = newline, cs)] else [])"
| "ends (Seq r1 r2) st = concat (map (ends r2) (ends r1 st))"
| "ends (Alt r1 r2) st = ends r1 st @ ends r2 st"
| "ends (Star r) st =
     concat (map (ends (Star r))
       (filter (\<lambda>st'. length (snd st') < length (snd st)) (ends r st))) @ [st]"

text \<open>A literal string, \<open>r+\<close>, \<open>\s*\<close> and the ranges of the patterns.\<close>

fun lit :: "string \<Rightarrow> rx" where
  "lit [] = Eps"
| "lit (c # cs) = Seq (Chars [CChar c]) (lit cs)"

definition plus :: "rx \<Rightarrow> rx" where
  "plus r = Seq r (Star r)"

definition spaces :: rx where
  "spaces = Star (Chars [CSpace])"

definition upper_az :: rx where
  "upper_az = Chars [CRange CHR ''A'' CHR ''Z'']"

definition lower_az :: rx where
  "lower_az = Chars [CRange CHR ''a'' CHR ''z'']"

fun alts :: "rx list \<Rightarrow> rx" where
  "alts [] = Eps"
| "alts [r] = r"
| "alts (r # rs) = Alt r (alts rs)"

fun seqs :: "rx list \<Rightarrow> rx" where
  "seqs [] = Eps"
| "seqs [r] = r"
| "seqs (r # rs) = Seq r (seqs rs)"

record section_regex =
  before_group :: rx
  after_group :: rx

text \<open>
  \<open>abstract\s*(.*?)(?:^\s*1\s*introduction|^introduction|^\s*[A-Z][a-z]+[A-Z][a-z]+|^keywords|^\s*i\s*introduction)\<close>
\<close>

definition ABSTRACT_REGEX :: section_regex where
  "ABSTRACT_REGEX =
     \<lparr>before_group = seqs [lit ''abstract'', spaces],
      after_group = alts
        [seqs [Bol, spaces, lit ''1'', spaces, lit ''introduction''],
         seqs [Bol, lit ''introduction''],
         seqs [Bol, spaces, upper_az, plus lower_az, upper_az, plus lower_az],
         seqs [Bol, lit ''keywords''],
         seqs [Bol, spaces, lit ''i'', spaces, lit ''introduction'']]\<rparr>"

text \<open>
  \<open>(?:^\s*1\s*introduction|^introduction)(.*?)(?:^\s*[2-9]\s*[A-Z\s]+|^\s*[a-z]\s*\.)\<close>
\<close>

definition INTRO_REGEX :: section_regex where
  "INTRO_REGEX =
     \<lparr>before_group = alts
        [seqs [Bol, spaces, lit ''1'', spaces, lit ''introduction''],
         seqs [Bol, lit ''introduction'']],
      after_group = alts
        [seqs [Bol, spaces, Chars [CRange CHR ''2'' CHR ''9''], spaces,
               plus (Chars [CRange CHR ''A'' CHR ''Z'', CSpace])],
         seqs [Bol, spaces, lower_az, spaces, lit ''.'']]\<rparr>"

text \<open>
  \<open>(?:^conclusion|^conclusions)(.*?)(?:^\s*acknowledgements|^references|^\s*appendix)\<close>
\<close>

definition CONCLUSION_REGEX :: section_regex where
  "CONCLUSION_REGEX =
     \<lparr>before_group = alts
        [seqs [Bol, lit ''conclusion''], seqs [Bol, lit ''conclusions'']],
      after_group = alts
        [seqs [Bol, spaces, lit ''acknowledgements''],
         seqs [Bol, lit ''references''],
         seqs [Bol, spaces, lit ''appendix'']]\<rparr>"

text \<open>
  The lazy group, with flag \<open>S\<close>: the shortest run of any characters after which
  the suffix matches. The last argument is the run so far, reversed.
\<close>

fun lazy_group :: "rx \<Rightarrow> bool \<Rightarrow> string \<Rightarrow> string \<Rightarrow> string option" where
  "lazy_group post bol [] acc =
     (if ends post (bol, []) \<noteq> [] then Some (rev acc) else None)"
| "lazy_group post bol (c # cs) acc =
     (if ends post (bol, c # cs) \<noteq> [] then Some (rev acc)
      else lazy_group post (c = newline) cs (c # acc))"

text \<open>
  Group 1 of the match that starts at the given position, if there is one: the first
  end of the prefix, in backtracking order, from which the group and the suffix
  match.
\<close>

fun first_group :: "rx \<Rightarrow> (bool \<times> string) list \<Rightarrow> string option" where
  "first_group post [] = None"
| "first_group post (st # sts) =
     (case lazy_group post (fst st) (snd st) [] of
        Some g \<Rightarrow> Some g
      | None \<Rightarrow> first_group post sts)"

definition match_here :: "section_regex \<Rightarrow> bool \<Rightarrow> string \<Rightarrow> string option" where
  "match_here p bol s = first_group (after_group p) (ends (before_group p) (bol, s))"

text \<open>\<open>regex.search(text)\<close>, then \<open>group(1)\<close>: the leftmost match.\<close>

fun search_from :: "section_regex \<Rightarrow> bool \<Rightarrow> string \<Rightarrow> string option" where
  "search_from p bol [] = match_here p bol []"
| "search_from p bol (c # cs) =
     (case match_here p bol (c # cs) of
        Some g \<Rightarrow> Some g
      | None \<Rightarrow> search_from p (c = newline) cs)"

definition regex_search :: "section_regex \<Rightarrow> string \<Rightarrow> string option" where
  "regex_search p s = search_from p True s"

section \<open>src/tools/pdf\_scraper.py: extract\_pdf\_sections\<close>

text \<open>
  What the function reads of its environment: whether a path exists, what the PDF
  library makes of the file (an exception, or its pages, each of which gives an
  exception, no text or a text when its text is extracted), and whether writing a
  file raises.
\<close>

type_synonym page = "pyexn + string option"

record pdf_world =
  path_exists :: "string \<Rightarrow> bool"
  pdf_open :: "string \<Rightarrow> pyexn + page list"
  write_raises :: "string \<Rightarrow> string option"

record pdf_sections =
  ps_path :: string
  ps_title :: string
  ps_abstract :: string
  ps_introduction :: string
  ps_conclusion :: string
  ps_full_text :: string
  ps_source :: string
  ps_error :: "string option"

definition PROCESSED_DATA_DIR :: string where
  "PROCESSED_DATA_DIR = ''data/papers/processed''"

text \<open>\<open>[page.extract_text() or "" for page in pdf.pages]\<close>\<close>

fun extract_pages :: "page list \<Rightarrow> pyexn + string list" where
  "extract_pages [] = Inr []"
| "extract_pages (p # ps) =
     (case p of
        Inl e \<Rightarrow> Inl e
      | Inr t \<Rightarrow>
          (case extract_pages ps of
             Inl e \<Rightarrow> Inl e
           | Inr ts \<Rightarrow> Inr ((case t of None \<Rightarrow> [] | Some s \<Rightarrow> s) # ts)))"

definition read_pages :: "pdf_world \<Rightarrow> string \<Rightarrow> pyexn + string list" where
  "read_pages w path =
     (case pdf_open w path of Inl e \<Rightarrow> Inl e | Inr pages \<Rightarrow> extract_pages pages)"

text \<open>The helper \<open>safe_search\<close>: group 1, stripped, with runs of whitespace made one space.\<close>

definition safe_search :: "section_regex \<Rightarrow> string \<Rightarrow> string \<Rightarrow> string" where
  "safe_search regex s dflt =
     (case regex_search regex s of
        Some g \<Rightarrow> py_join '' '' (py_split (py_strip g))
      | None \<Rightarrow> dflt)"

text \<open>The record as it is first built, before the file is looked at.\<close>

definition initial_metadata :: "string \<Rightarrow> pdf_sections" where
  "initial_metadata path =
     \<lparr>ps_path = path, ps_title = basename path, ps_abstract = [], ps_introduction = [],
      ps_conclusion = [], ps_full_text = [], ps_source = ''pdf_paper'', ps_error = None\<rparr>"

text \<open>What \<open>json.dump\<close> writes: the record without \<open>full_text\<close>.\<close>

definition persisted_json :: "pdf_sections \<Rightarrow> pydict" where
  "persisted_json m =
     [(''path'', PStr (ps_path m)), (''title'', PStr (ps_title m)),
      (''abstract'', PStr (ps_abstract m)), (''introduction'', PStr (ps_introduction m)),
      (''conclusion'', PStr (ps_conclusion m)), (''source'', PStr (ps_source m))]"

definition pdf_output_path :: "string \<Rightarrow> string" where
  "pdf_output_path path =
     PROCESSED_DATA_DIR @ ''/'' @
     py_lower (py_replace '' '' ''_'' (py_replace ''.pdf'' [] (basename path))) @
     ''_processed.json''"

text \<open>
  The body of the \<open>with\<close> block once the page texts are there. Taking the first
  page of a PDF without pages raises \<open>IndexError\<close>. The record is updated in place,
  so an exception of the write leaves the extracted fields in the record the
  \<open>except\<close> clause returns.
\<close>

definition extract_from_pages ::
  "pdf_world \<Rightarrow> string \<Rightarrow> string list \<Rightarrow> pyexn + (pdf_sections \<times> (string \<times> pydict) list)"
  where
  "extract_from_pages w path full_text_list =
     (let metadata = initial_metadata path;
          full_text = py_join [newline] full_text_list;
          normalized_text = py_lower full_text
      in case full_text_list of
           [] \<Rightarrow> Inr (metadata\<lparr>ps_error :=
                   Some (''Error processing PDF: list index out of range'')\<rparr>, [])
         | first_page_text # rest \<Rightarrow>
             (let metadata = metadata\<lparr>ps_title := py_strip (first_line first_page_text)\<rparr>;
                  metadata = metadata\<lparr>ps_abstract := safe_search ABSTRACT_REGEX normalized_text []\<rparr>;
                  metadata = metadata\<lparr>ps_introduction := safe_search INTRO_REGEX normalized_text []\<rparr>;
                  metadata = metadata\<lparr>ps_conclusion := safe_search CONCLUSION_REGEX normalized_text []\<rparr>;
                  metadata =
                    (if ps_abstract metadata = []
                     then metadata\<lparr>ps_abstract := py_join '' '' (take 150 (py_split full_text))\<rparr>
                     else metadata);
                  metadata = metadata\<lparr>ps_full_text := py_join '' '' (py_split full_text)\<rparr>;
                  output_path = pdf_output_path path
              in case write_raises w output_path of
                   Some e \<Rightarrow> Inr (metadata\<lparr>ps_error := Some (''Error processing PDF: '' @ e)\<rparr>, [])
                 | None \<Rightarrow> Inr (metadata, [(output_path, persisted_json metadata)])))"

text \<open>
  \<open>extract_pdf_sections\<close>: the record it returns and the files it writes. No branch
  raises: \<open>except Exception\<close> turns every exception into the \<open>error\<close> field.
\<close>

definition extract_pdf_sections ::
  "pdf_world \<Rightarrow> string \<Rightarrow> pdf_sections \<times> (string \<times> pydict) list" where
  "extract_pdf_sections w path =
     (if \<not> path_exists w path
      then ((initial_metadata path)\<lparr>ps_error := Some ''File not found.''\<rparr>, [])
      else
        (case read_pages w path of
           Inl e \<Rightarrow>
             ((initial_metadata path)\<lparr>ps_error :=
                 Some (''Error processing PDF: '' @ exn_str e)\<rparr>, [])
         | Inr full_text_list \<Rightarrow>
             (case extract_from_pages w path full_text_list of
                Inl e \<Rightarrow>
                  ((initial_metadata path)\<lparr>ps_error :=
                      Some (''Error processing PDF: '' @ exn_str e)\<rparr>, [])
              | Inr result \<Rightarrow> result)))"

section \<open>Facts about strings and the section patterns\<close>

declare ends.simps(6) [simp del]

lemma lower_char_not_upper: "\<not> is_upper (lower_char c)"
proof (cases "is_upper c")
  case False
  then show ?thesis by (simp add: lower_char_def)
next
  case True
  then have "(of_char c :: nat) + 32 < 256"
    by (auto simp: is_upper_def Let_def)
  then have "(of_char (char_of (of_char c + 32 :: nat)) :: nat) = of_char c + 32"
    by simp
  with True show ?thesis
    by (auto simp: lower_char_def is_upper_def Let_def)
qed

lemma py_lower_no_upper: "list_all (\<lambda>c. \<not> is_upper c) (py_lower s)"
  by (simp add: py_lower_def list_all_iff lower_char_not_upper)

lemma space_not_upper: "\<not> is_upper CHR '' ''"
  by (simp add: is_upper_def)

lemma set_py_strip: "set (py_strip s) \<subseteq> set s"
proof
  fix c
  assume "c \<in> set (py_strip s)"
  then have "c \<in> set (dropWhile is_space (rev (dropWhile is_space s)))"
    by (simp add: py_strip_def)
  then have "c \<in> set (rev (dropWhile is_space s))"
    by (rule set_dropWhileD)
  then have "c \<in> set (dropWhile is_space s)"
    by simp
  then show "c \<in> set s"
    by (rule set_dropWhileD)
qed

lemma set_split_ws: "word \<in> set (split_ws w s) \<Longrightarrow> set word \<subseteq> set w \<union> set s"
  by (induction w s rule: split_ws.induct) (auto split: if_splits)

lemma set_py_split: "word \<in> set (py_split s) \<Longrightarrow> set word \<subseteq> set s"
  using set_split_ws [of word "[]" s] by (simp add: py_split_def)

lemma set_py_join: "set (py_join sep xs) \<subseteq> set sep \<union> \<Union> (set ` set xs)"
  by (induction sep xs rule: py_join.induct) auto

lemma clean_chars:
  "set (py_join '' '' (py_split (py_strip g))) \<subseteq> insert CHR '' '' (set g)"
proof
  fix c
  assume "c \<in> set (py_join '' '' (py_split (py_strip g)))"
  then have "c \<in> set '' '' \<union> \<Union> (set ` set (py_split (py_strip g)))"
    using set_py_join by blast
  then show "c \<in> insert CHR '' '' (set g)"
    using set_py_split set_py_strip by fastforce
qed

lemma ends_suffix:
  "st' \<in> set (ends r st) \<Longrightarrow> \<exists>p. snd st = p @ snd st'"
proof (induction r st arbitrary: st' rule: ends.induct)
  case (1 st)
  then show ?case by simp
next
  case (2 st)
  then show ?case by (simp split: if_splits)
next
  case (3 items st)
  then show ?case
    by (cases "snd st") (auto split: if_splits)
next
  case (4 r1 r2 st)
  from "4.prems" obtain mid where mid: "mid \<in> set (ends r1 st)" and st': "st' \<in> set (ends r2 mid)"
    by auto
  from "4.IH"(1) [OF mid] obtain p where p: "snd st = p @ snd mid" by blast
  from "4.IH"(2) [OF mid st'] obtain q where q: "snd mid = q @ snd st'" by blast
  from p q have "snd st = (p @ q) @ snd st'" by simp
  then show ?case by blast
next
  case (5 r1 r2 st)
  from "5.prems" have "st' \<in> set (ends r1 st) \<or> st' \<in> set (ends r2 st)"
    by simp
  then show ?case
    using "5.IH" by blast
next
  case (6 r st)
  from "6.prems" have "st' \<in> set (concat (map (ends (Star r))
       (filter (\<lambda>st'. length (snd st') < length (snd st)) (ends r st))) @ [st])"
    by (simp only: ends.simps(6))
  then consider "st' = st"
    | mid where "mid \<in> set (ends r st)" "length (snd mid) < length (snd st)"
        "st' \<in> set (ends (Star r) mid)"
    by auto
  then show ?case
  proof cases
    case 1
    then show ?thesis by simp
  next
    case 2
    from "6.IH"(1) [OF 2(1)] obtain p where p: "snd st = p @ snd mid" by blast
    from 2(1) 2(2) have "mid \<in> set (filter (\<lambda>st'. length (snd st') < length (snd st)) (ends r st))"
      by simp
    from "6.IH"(2) [OF this 2(3)] obtain q where q: "snd mid = q @ snd st'" by blast
    from p q have "snd st = (p @ q) @ snd st'" by simp
    then show ?thesis by blast
  qed
qed

lemma lazy_group_slice:
  "lazy_group post bol s acc = Some g \<Longrightarrow> \<exists>k b. g = rev acc @ k \<and> s = k @ b"
proof (induction post bol s acc rule: lazy_group.induct)
  case (1 post bol acc)
  then show ?case by (simp split: if_splits)
next
  case (2 post bol c cs acc)
  show ?case
  proof (cases "ends post (bol, c # cs) \<noteq> []")
    case True
    with "2.prems" have "g = rev acc" by simp
    then show ?thesis by simp
  next
    case False
    with "2.prems" have "lazy_group post (c = newline) cs (c # acc) = Some g" by simp
    from "2.IH" [OF False this] obtain k b where "g = rev (c # acc) @ k" "cs = k @ b"
      by blast
    then have "g = rev acc @ (c # k)" "c # cs = (c # k) @ b" by simp_all
    then show ?thesis by blast
  qed
qed

lemma first_group_slice:
  "first_group post sts = Some g \<Longrightarrow> \<exists>st \<in> set sts. \<exists>b. snd st = g @ b"
proof (induction sts)
  case Nil
  then show ?case by simp
next
  case (Cons st sts)
  show ?case
  proof (cases "lazy_group post (fst st) (snd st) []")
    case None
    with Cons show ?thesis by simp
  next
    case (Some g')
    with Cons.prems have "g' = g" by simp
    with Some lazy_group_slice [of post "fst st" "snd st" "[]" g] show ?thesis
      by auto
  qed
qed

lemma match_here_slice:
  assumes "match_here p bol s = Some g"
  shows "\<exists>a b. s = a @ g @ b"
proof -
  from assms first_group_slice obtain st b
    where st: "st \<in> set (ends (before_group p) (bol, s))" and b: "snd st = g @ b"
    unfolding match_here_def by blast
  from ends_suffix [OF st] obtain a where "s = a @ snd st" by auto
  with b show ?thesis by auto
qed

lemma search_from_slice:
  "search_from p bol s = Some g \<Longrightarrow> \<exists>a b. s = a @ g @ b"
proof (induction p bol s rule: search_from.induct)
  case (1 p bol)
  then show ?case using match_here_slice [of p bol "[]" g] by simp
next
  case (2 p bol c cs)
  show ?case
  proof (cases "match_here p bol (c # cs)")
    case (Some g')
    with "2.prems" have "match_here p bol (c # cs) = Some g" by simp
    then show ?thesis by (rule match_here_slice)
  next
    case None
    with "2.prems" have "search_from p (c = newline) cs = Some g" by simp
    from "2.IH" [OF None this] obtain a b where "cs = a @ g @ b" by blast
    then have "c # cs = (c # a) @ g @ b" by simp
    then show ?thesis by blast
  qed
qed

lemma regex_search_slice:
  "regex_search p s = Some g \<Longrightarrow> \<exists>a b. s = a @ g @ b"
  unfolding regex_search_def by (rule search_from_slice)

lemma section_no_upper:
  assumes "regex_search p (py_lower s) = Some g"
  shows "list_all (\<lambda>c. \<not> is_upper c) (py_join '' '' (py_split (py_strip g)))"
proof -
  from regex_search_slice [OF assms] have "set g \<subseteq> set (py_lower s)" by auto
  then have "\<forall>c \<in> set g. \<not> is_upper c"
    using py_lower_no_upper [of s] by (auto simp: list_all_iff)
  then show ?thesis
    using clean_chars [of g] space_not_upper by (auto simp: list_all_iff)
qed

section \<open>Facts about extract\_pdf\_sections\<close>

lemma extract_pdf_sections_missing:
  "\<not> path_exists w path \<Longrightarrow>
     extract_pdf_sections w path =
       ((initial_metadata path)\<lparr>ps_error := Some ''File not found.''\<rparr>, [])"
  by (simp add: extract_pdf_sections_def)

lemma extract_pdf_sections_unreadable:
  "path_exists w path \<Longrightarrow> read_pages w path = Inl e \<Longrightarrow>
     extract_pdf_sections w path =
       ((initial_metadata path)\<lparr>ps_error := Some (''Error processing PDF: '' @ exn_str e)\<rparr>, [])"
  by (simp add: extract_pdf_sections_def)

lemma extract_pdf_sections_no_pages:
  "path_exists w path \<Longrightarrow> read_pages w path = Inr [] \<Longrightarrow>
     extract_pdf_sections w path =
       ((initial_metadata path)\<lparr>ps_error :=
           Some ''Error processing PDF: list index out of range''\<rparr>, [])"
  by (simp add: extract_pdf_sections_def extract_from_pages_def)

text \<open>The record on the path on which the page texts are there, field by field.\<close>

lemma extract_pdf_sections_fields:
  assumes "path_exists w path" and "read_pages w path = Inr (first_page # rest)"
  shows "ps_path (fst (extract_pdf_sections w path)) = path"
    and "ps_source (fst (extract_pdf_sections w path)) = ''pdf_paper''"
    and "ps_title (fst (extract_pdf_sections w path)) = py_strip (first_line first_page)"
    and "ps_introduction (fst (extract_pdf_sections w path)) =
           safe_search INTRO_REGEX (py_lower (py_join [newline] (first_page # rest))) []"
    and "ps_conclusion (fst (extract_pdf_sections w path)) =
           safe_search CONCLUSION_REGEX (py_lower (py_join [newline] (first_page # rest))) []"
    and "ps_abstract (fst (extract_pdf_sections w path)) =
           (if safe_search ABSTRACT_REGEX (py_lower (py_join [newline] (first_page # rest))) [] = []
            then py_join '' '' (take 150 (py_split (py_join [newline] (first_page # rest))))
            else safe_search ABSTRACT_REGEX (py_lower (py_join [newline] (first_page # rest))) [])"
    and "ps_full_text (fst (extract_pdf_sections w path)) =
           py_join '' '' (py_split (py_join [newline] (first_page # rest)))"
    and "ps_error (fst (extract_pdf_sections w path)) =
           (case write_raises w (pdf_output_path path) of
              None \<Rightarrow> None | Some e \<Rightarrow> Some (''Error processing PDF: '' @ e))"
  using assms
  by (simp_all add: extract_pdf_sections_def extract_from_pages_def initial_metadata_def
      Let_def split: option.splits)

lemma py_split_Nil: "py_split [] = []"
  by (simp add: py_split_def)

lemma extract_pdf_sections_no_pages_fields:
  assumes "path_exists w path" and "read_pages w path = Inr []"
  shows "ps_path (fst (extract_pdf_sections w path)) = path"
    and "ps_source (fst (extract_pdf_sections w path)) = ''pdf_paper''"
    and "ps_introduction (fst (extract_pdf_sections w path)) = []"
    and "ps_conclusion (fst (extract_pdf_sections w path)) = []"
    and "ps_abstract (fst (extract_pdf_sections w path)) =
           py_join '' '' (take 150 (py_split (py_join [newline] [])))"
  using assms
  by (simp_all add: extract_pdf_sections_no_pages initial_metadata_def py_split_Nil)

text \<open>
  Claim C5. When the path does not exist, or the PDF library raises on opening the
  file or on extracting the text of a page, or the PDF has no page,
  \<open>extract_pdf_sections\<close> returns (it has no raising branch) the record it first
  built, that is the path, the file name as title, empty abstract, introduction,
  conclusion and full text, and the source \<open>pdf_paper\<close>, with an \<open>error\<close> field
  added, and writes no file.
\<close>

theorem extract_pdf_sections_error_field:
  "\<not> path_exists w path \<or> (\<exists>e. read_pages w path = Inl e) \<or> read_pages w path = Inr [] \<longrightarrow>
     (\<exists>msg. fst (extract_pdf_sections w path) =
        \<lparr>ps_path = path, ps_title = basename path, ps_abstract = [], ps_introduction = [],
         ps_conclusion = [], ps_full_text = [], ps_source = ''pdf_paper'',
         ps_error = Some msg\<rparr>) \<and>
     snd (extract_pdf_sections w path) = [] \<and>
     (\<not> path_exists w path \<longrightarrow>
        ps_error (fst (extract_pdf_sections w path)) = Some ''File not found.'') \<and>
     (path_exists w path \<longrightarrow>
        (\<forall>e. read_pages w path = Inl e \<longrightarrow>
           ps_error (fst (extract_pdf_sections w path)) =
             Some (''Error processing PDF: '' @ exn_str e)))"
proof (intro impI)
  assume h: "\<not> path_exists w path \<or> (\<exists>e. read_pages w path = Inl e) \<or>
    read_pages w path = Inr []"
  consider (missing) "\<not> path_exists w path"
    | (unreadable) e where "path_exists w path" "read_pages w path = Inl e"
    | (no_pages) "path_exists w path" "read_pages w path = Inr []"
    using h by blast
  then show "(\<exists>msg. fst (extract_pdf_sections w path) =
        \<lparr>ps_path = path, ps_title = basename path, ps_abstract = [], ps_introduction = [],
         ps_conclusion = [], ps_full_text = [], ps_source = ''pdf_paper'',
         ps_error = Some msg\<rparr>) \<and>
     snd (extract_pdf_sections w path) = [] \<and>
     (\<not> path_exists w path \<longrightarrow>
        ps_error (fst (extract_pdf_sections w path)) = Some ''File not found.'') \<and>
     (path_exists w path \<longrightarrow>
        (\<forall>e. read_pages w path = Inl e \<longrightarrow>
           ps_error (fst (extract_pdf_sections w path)) =
             Some (''Error processing PDF: '' @ exn_str e)))"
  proof cases
    case missing
    then show ?thesis
      by (simp add: extract_pdf_sections_missing initial_metadata_def)
  next
    case unreadable
    then show ?thesis
      by (simp add: extract_pdf_sections_unreadable initial_metadata_def)
  next
    case no_pages
    then show ?thesis
      by (simp add: extract_pdf_sections_no_pages initial_metadata_def)
  qed
qed

text \<open>
  A file system with one file, \<open>data/papers/broken.pdf\<close>, which the PDF library
  cannot open.
\<close>

definition broken_pdf_world :: pdf_world where
  "broken_pdf_world =
     \<lparr>path_exists = (\<lambda>p. p = ''data/papers/broken.pdf''),
      pdf_open = (\<lambda>p. Inl (OtherException ''No /Root object! - Is this really a PDF?'')),
      write_raises = (\<lambda>p. None)\<rparr>"

theorem extract_pdf_sections_error_field_witness:
  "\<not> path_exists broken_pdf_world ''data/papers/none.pdf'' \<and>
   extract_pdf_sections broken_pdf_world ''data/papers/none.pdf'' =
     (\<lparr>ps_path = ''data/papers/none.pdf'', ps_title = ''none.pdf'', ps_abstract = [],
       ps_introduction = [], ps_conclusion = [], ps_full_text = [],
       ps_source = ''pdf_paper'', ps_error = Some ''File not found.''\<rparr>, []) \<and>
   read_pages broken_pdf_world ''data/papers/broken.pdf'' =
     Inl (OtherException ''No /Root object! - Is this really a PDF?'') \<and>
   extract_pdf_sections broken_pdf_world ''data/papers/broken.pdf'' =
     (\<lparr>ps_path = ''data/papers/broken.pdf'', ps_title = ''broken.pdf'', ps_abstract = [],
       ps_introduction = [], ps_conclusion = [], ps_full_text = [],
       ps_source = ''pdf_paper'',
       ps_error = Some ''Error processing PDF: No /Root object! - Is this really a PDF?''\<rparr>,
      [])"
proof -
  have missing: "\<not> path_exists broken_pdf_world ''data/papers/none.pdf''"
    by (simp add: broken_pdf_world_def)
  have there: "path_exists broken_pdf_world ''data/papers/broken.pdf''"
    by (simp add: broken_pdf_world_def)
  have unreadable: "read_pages broken_pdf_world ''data/papers/broken.pdf'' =
     Inl (OtherException ''No /Root object! - Is this really a PDF?'')"
    by (simp add: broken_pdf_world_def read_pages_def)
  have b1: "basename ''data/papers/none.pdf'' = ''none.pdf''"
    by (simp add: basename_def)
  have b2: "basename ''data/papers/broken.pdf'' = ''broken.pdf''"
    by (simp add: basename_def)
  note inst1 = extract_pdf_sections_error_field [of broken_pdf_world "''data/papers/none.pdf''"]
  note inst2 = extract_pdf_sections_error_field [of broken_pdf_world "''data/papers/broken.pdf''"]
  from inst1 missing b1
  have r1: "extract_pdf_sections broken_pdf_world ''data/papers/none.pdf'' =
     (\<lparr>ps_path = ''data/papers/none.pdf'', ps_title = ''none.pdf'', ps_abstract = [],
       ps_introduction = [], ps_conclusion = [], ps_full_text = [],
       ps_source = ''pdf_paper'', ps_error = Some ''File not found.''\<rparr>, [])"
    by (auto simp: prod_eq_iff)
  from inst2 there unreadable b2
  have r2: "extract_pdf_sections broken_pdf_world ''data/papers/broken.pdf'' =
     (\<lparr>ps_path = ''data/papers/broken.pdf'', ps_title = ''broken.pdf'', ps_abstract = [],
       ps_introduction = [], ps_conclusion = [], ps_full_text = [],
       ps_source = ''pdf_paper'',
       ps_error = Some ''Error processing PDF: No /Root object! - Is this really a PDF?''\<rparr>,
      [])"
    by (auto simp: prod_eq_iff)
  from missing unreadable r1 r2 show ?thesis
    by simp
qed


text \<open>
  Claim C6. For every PDF that exists and whose pages the library reads,
  \<open>extract_pdf_sections\<close> returns a record (it has no raising branch) with the path
  and the source; an introduction or a conclusion whose pattern finds no match is
  the empty string; an abstract whose pattern finds no match is the first 150
  words of the text of all pages; and when the PDF has a page, the title is the
  first line of the first page, the full text is the text of all pages with its
  whitespace made single spaces, each section is what \<open>safe_search\<close> gives for its
  own pattern whatever the other patterns find, and the record has no \<open>error\<close>
  field unless writing the JSON file raises.
\<close>

theorem extract_pdf_sections_missing_section:
  "path_exists w path \<and> read_pages w path = Inr pages \<and>
   fst (extract_pdf_sections w path) = r \<longrightarrow>
     ps_path r = path \<and> ps_source r = ''pdf_paper'' \<and>
     (regex_search INTRO_REGEX (py_lower (py_join [newline] pages)) = None \<longrightarrow>
        ps_introduction r = []) \<and>
     (regex_search CONCLUSION_REGEX (py_lower (py_join [newline] pages)) = None \<longrightarrow>
        ps_conclusion r = []) \<and>
     (regex_search ABSTRACT_REGEX (py_lower (py_join [newline] pages)) = None \<longrightarrow>
        ps_abstract r = py_join '' '' (take 150 (py_split (py_join [newline] pages)))) \<and>
     (pages \<noteq> [] \<longrightarrow>
        ps_title r = py_strip (first_line (hd pages)) \<and>
        ps_full_text r = py_join '' '' (py_split (py_join [newline] pages)) \<and>
        ps_introduction r = safe_search INTRO_REGEX (py_lower (py_join [newline] pages)) [] \<and>
        ps_conclusion r =
          safe_search CONCLUSION_REGEX (py_lower (py_join [newline] pages)) [] \<and>
        ps_abstract r =
          (if safe_search ABSTRACT_REGEX (py_lower (py_join [newline] pages)) [] = []
           then py_join '' '' (take 150 (py_split (py_join [newline] pages)))
           else safe_search ABSTRACT_REGEX (py_lower (py_join [newline] pages)) []) \<and>
        (write_raises w (pdf_output_path path) = None \<longrightarrow> ps_error r = None))"
proof (intro impI)
  assume h: "path_exists w path \<and> read_pages w path = Inr pages \<and>
   fst (extract_pdf_sections w path) = r"
  show "ps_path r = path \<and> ps_source r = ''pdf_paper'' \<and>
     (regex_search INTRO_REGEX (py_lower (py_join [newline] pages)) = None \<longrightarrow>
        ps_introduction r = []) \<and>
     (regex_search CONCLUSION_REGEX (py_lower (py_join [newline] pages)) = None \<longrightarrow>
        ps_conclusion r = []) \<and>
     (regex_search ABSTRACT_REGEX (py_lower (py_join [newline] pages)) = None \<longrightarrow>
        ps_abstract r = py_join '' '' (take 150 (py_split (py_join [newline] pages)))) \<and>
     (pages \<noteq> [] \<longrightarrow>
        ps_title r = py_strip (first_line (hd pages)) \<and>
        ps_full_text r = py_join '' '' (py_split (py_join [newline] pages)) \<and>
        ps_introduction r = safe_search INTRO_REGEX (py_lower (py_join [newline] pages)) [] \<and>
        ps_conclusion r =
          safe_search CONCLUSION_REGEX (py_lower (py_join [newline] pages)) [] \<and>
        ps_abstract r =
          (if safe_search ABSTRACT_REGEX (py_lower (py_join [newline] pages)) [] = []
           then py_join '' '' (take 150 (py_split (py_join [newline] pages)))
           else safe_search ABSTRACT_REGEX (py_lower (py_join [newline] pages)) []) \<and>
        (write_raises w (pdf_output_path path) = None \<longrightarrow> ps_error r = None))"
  proof (cases pages)
    case Nil
    with h extract_pdf_sections_no_pages_fields [of w path] show ?thesis
      by auto
  next
    case (Cons first_page rest)
    with h extract_pdf_sections_fields [of w path first_page rest] show ?thesis
      by (auto simp: safe_search_def)
  qed
qed

text \<open>
  A file system with one PDF of one page that has an introduction and neither an
  abstract nor a conclusion.
\<close>

definition intro_only_text :: string where
  "intro_only_text =
     ''T'' @ [newline] @ ''1 Introduction'' @ [newline] @ ''Hello there'' @ [newline] @
     ''2 METHODS'' @ [newline] @ ''x''"

definition intro_only_world :: pdf_world where
  "intro_only_world =
     \<lparr>path_exists = (\<lambda>p. True),
      pdf_open = (\<lambda>p. Inr [Inr (Some intro_only_text)]),
      write_raises = (\<lambda>p. None)\<rparr>"

theorem extract_pdf_sections_missing_section_witness:
  "path_exists intro_only_world ''a.pdf'' \<and>
   read_pages intro_only_world ''a.pdf'' = Inr [intro_only_text] \<and>
   regex_search CONCLUSION_REGEX (py_lower (py_join [newline] [intro_only_text])) = None \<and>
   regex_search ABSTRACT_REGEX (py_lower (py_join [newline] [intro_only_text])) = None \<and>
   fst (extract_pdf_sections intro_only_world ''a.pdf'') =
     \<lparr>ps_path = ''a.pdf'', ps_title = ''T'',
      ps_abstract = ''T 1 Introduction Hello there 2 METHODS x'',
      ps_introduction = ''hello there'', ps_conclusion = [],
      ps_full_text = ''T 1 Introduction Hello there 2 METHODS x'',
      ps_source = ''pdf_paper'', ps_error = None\<rparr>"
proof -
  have there: "path_exists intro_only_world ''a.pdf''"
    by (simp add: intro_only_world_def)
  have pages: "read_pages intro_only_world ''a.pdf'' = Inr [intro_only_text]"
    by (simp add: intro_only_world_def read_pages_def)
  have written: "write_raises intro_only_world (pdf_output_path ''a.pdf'') = None"
    by (simp add: intro_only_world_def)
  have no_conclusion:
    "regex_search CONCLUSION_REGEX (py_lower (py_join [newline] [intro_only_text])) = None"
    by code_simp
  have no_abstract:
    "regex_search ABSTRACT_REGEX (py_lower (py_join [newline] [intro_only_text])) = None"
    by code_simp
  have intro: "safe_search INTRO_REGEX (py_lower (py_join [newline] [intro_only_text])) [] =
      ''hello there''"
    by code_simp
  have words: "py_join '' '' (take 150 (py_split (py_join [newline] [intro_only_text]))) =
      ''T 1 Introduction Hello there 2 METHODS x''"
    by code_simp
  have full: "py_join '' '' (py_split (py_join [newline] [intro_only_text])) =
      ''T 1 Introduction Hello there 2 METHODS x''"
    by code_simp
  have title: "py_strip (first_line intro_only_text) = ''T''"
    by code_simp
  note inst = extract_pdf_sections_missing_section
    [of intro_only_world "''a.pdf''" "[intro_only_text]"
        "fst (extract_pdf_sections intro_only_world ''a.pdf'')"]
  from inst there pages written no_conclusion no_abstract intro words full title
  have "fst (extract_pdf_sections intro_only_world ''a.pdf'') =
     \<lparr>ps_path = ''a.pdf'', ps_title = ''T'',
      ps_abstract = ''T 1 Introduction Hello there 2 METHODS x'',
      ps_introduction = ''hello there'', ps_conclusion = [],
      ps_full_text = ''T 1 Introduction Hello there 2 METHODS x'',
      ps_source = ''pdf_paper'', ps_error = None\<rparr>"
    by (cases "fst (extract_pdf_sections intro_only_world ''a.pdf'')") simp
  with there pages no_conclusion no_abstract show ?thesis
    by simp
qed

text \<open>A text without upper-case letters is left as it is by \<open>lower\<close>.\<close>

lemma py_lower_fixed: "list_all (\<lambda>c. \<not> is_upper c) s \<Longrightarrow> py_lower s = s"
  by (induction s) (simp_all add: py_lower_def lower_char_def)

lemma py_lower_idem: "py_lower (py_lower s) = py_lower s"
  by (rule py_lower_fixed) (rule py_lower_no_upper)

lemma section_lower_fixed:
  assumes "regex_search p (py_lower s) = Some g"
  shows "py_lower (py_join '' '' (py_split (py_strip g))) = py_join '' '' (py_split (py_strip g))"
  by (rule py_lower_fixed) (rule section_no_upper [OF assms])

text \<open>
  Claim C10, as the code has it. For every PDF that exists and has a page: when the
  introduction or the conclusion pattern matches, that field is group 1 of the
  match, cleaned (stripped, runs of whitespace made one space), the match is taken
  from the lower-cased copy of the text, so the group is a slice of what \<open>lower\<close>
  returns for the text, and \<open>lower\<close> leaves the field as it is; the same holds of
  the abstract when its pattern matches and the cleaned group is not empty. When
  the abstract pattern does not match, or matches with a group that is empty once
  cleaned, the abstract is the first 150 words of the text in its original case;
  the full text and the title are taken from the text in its original case too. (So
  a matched abstract can have upper-case letters, and the title is a third field
  that keeps the case: see the counterexample.) Characters here are the code points
  below 256; the property of a matched section is stated as being unchanged by
  \<open>lower\<close>, not as having no upper-case letter, since beyond that range \<open>str.lower\<close>
  leaves some upper-case letters as they are.
\<close>

theorem extract_pdf_sections_lowercased_sections:
  "path_exists w path \<and> read_pages w path = Inr pages \<and> pages \<noteq> [] \<and>
   fst (extract_pdf_sections w path) = r \<longrightarrow>
     (\<forall>g. regex_search INTRO_REGEX (py_lower (py_join [newline] pages)) = Some g \<longrightarrow>
        ps_introduction r = py_join '' '' (py_split (py_strip g)) \<and>
        (\<exists>a b. py_lower (py_join [newline] pages) = a @ g @ b) \<and>
        py_lower (ps_introduction r) = ps_introduction r) \<and>
     (\<forall>g. regex_search CONCLUSION_REGEX (py_lower (py_join [newline] pages)) = Some g \<longrightarrow>
        ps_conclusion r = py_join '' '' (py_split (py_strip g)) \<and>
        (\<exists>a b. py_lower (py_join [newline] pages) = a @ g @ b) \<and>
        py_lower (ps_conclusion r) = ps_conclusion r) \<and>
     (\<forall>g. regex_search ABSTRACT_REGEX (py_lower (py_join [newline] pages)) = Some g \<and>
          py_join '' '' (py_split (py_strip g)) \<noteq> [] \<longrightarrow>
        ps_abstract r = py_join '' '' (py_split (py_strip g)) \<and>
        (\<exists>a b. py_lower (py_join [newline] pages) = a @ g @ b) \<and>
        py_lower (ps_abstract r) = ps_abstract r) \<and>
     (regex_search ABSTRACT_REGEX (py_lower (py_join [newline] pages)) = None \<or>
      (\<exists>g. regex_search ABSTRACT_REGEX (py_lower (py_join [newline] pages)) = Some g \<and>
           py_join '' '' (py_split (py_strip g)) = []) \<longrightarrow>
        ps_abstract r = py_join '' '' (take 150 (py_split (py_join [newline] pages)))) \<and>
     ps_full_text r = py_join '' '' (py_split (py_join [newline] pages)) \<and>
     ps_title r = py_strip (first_line (hd pages))"
proof (intro impI)
  assume h: "path_exists w path \<and> read_pages w path = Inr pages \<and> pages \<noteq> [] \<and>
   fst (extract_pdf_sections w path) = r"
  then obtain first_page rest where pages: "pages = first_page # rest"
    by (cases pages) auto
  let ?norm = "py_lower (py_join [newline] pages)"
  note fields = extract_pdf_sections_fields [of w path first_page rest]
  have intro: "ps_introduction r = safe_search INTRO_REGEX ?norm []"
    and concl: "ps_conclusion r = safe_search CONCLUSION_REGEX ?norm []"
    and abstract: "ps_abstract r =
      (if safe_search ABSTRACT_REGEX ?norm [] = []
       then py_join '' '' (take 150 (py_split (py_join [newline] pages)))
       else safe_search ABSTRACT_REGEX ?norm [])"
    and full: "ps_full_text r = py_join '' '' (py_split (py_join [newline] pages))"
    and title: "ps_title r = py_strip (first_line (hd pages))"
    using h pages fields by auto
  have sec: "safe_search p ?norm [] = py_join '' '' (py_split (py_strip g)) \<and>
      (\<exists>a b. ?norm = a @ g @ b) \<and>
      py_lower (py_join '' '' (py_split (py_strip g))) = py_join '' '' (py_split (py_strip g))"
    if "regex_search p ?norm = Some g" for p g
    using that regex_search_slice [OF that] section_lower_fixed [OF that]
    by (simp add: safe_search_def)
  have fallback: "safe_search ABSTRACT_REGEX ?norm [] = []"
    if "regex_search ABSTRACT_REGEX ?norm = None \<or>
      (\<exists>g. regex_search ABSTRACT_REGEX ?norm = Some g \<and>
           py_join '' '' (py_split (py_strip g)) = [])"
    using that by (auto simp: safe_search_def)
  show "(\<forall>g. regex_search INTRO_REGEX (py_lower (py_join [newline] pages)) = Some g \<longrightarrow>
        ps_introduction r = py_join '' '' (py_split (py_strip g)) \<and>
        (\<exists>a b. py_lower (py_join [newline] pages) = a @ g @ b) \<and>
        py_lower (ps_introduction r) = ps_introduction r) \<and>
     (\<forall>g. regex_search CONCLUSION_REGEX (py_lower (py_join [newline] pages)) = Some g \<longrightarrow>
        ps_conclusion r = py_join '' '' (py_split (py_strip g)) \<and>
        (\<exists>a b. py_lower (py_join [newline] pages) = a @ g @ b) \<and>
        py_lower (ps_conclusion r) = ps_conclusion r) \<and>
     (\<forall>g. regex_search ABSTRACT_REGEX (py_lower (py_join [newline] pages)) = Some g \<and>
          py_join '' '' (py_split (py_strip g)) \<noteq> [] \<longrightarrow>
        ps_abstract r = py_join '' '' (py_split (py_strip g)) \<and>
        (\<exists>a b. py_lower (py_join [newline] pages) = a @ g @ b) \<and>
        py_lower (ps_abstract r) = ps_abstract r) \<and>
     (regex_search ABSTRACT_REGEX (py_lower (py_join [newline] pages)) = None \<or>
      (\<exists>g. regex_search ABSTRACT_REGEX (py_lower (py_join [newline] pages)) = Some g \<and>
           py_join '' '' (py_split (py_strip g)) = []) \<longrightarrow>
        ps_abstract r = py_join '' '' (take 150 (py_split (py_join [newline] pages)))) \<and>
     ps_full_text r = py_join '' '' (py_split (py_join [newline] pages)) \<and>
     ps_title r = py_strip (first_line (hd pages))"
  proof (intro conjI allI impI)
    fix g assume "regex_search INTRO_REGEX ?norm = Some g"
    from sec [OF this] intro
    show "ps_introduction r = py_join '' '' (py_split (py_strip g))"
      "\<exists>a b. ?norm = a @ g @ b" "py_lower (ps_introduction r) = ps_introduction r"
      by simp_all
  next
    fix g assume "regex_search CONCLUSION_REGEX ?norm = Some g"
    from sec [OF this] concl
    show "ps_conclusion r = py_join '' '' (py_split (py_strip g))"
      "\<exists>a b. ?norm = a @ g @ b" "py_lower (ps_conclusion r) = ps_conclusion r"
      by simp_all
  next
    fix g assume a: "regex_search ABSTRACT_REGEX ?norm = Some g \<and>
          py_join '' '' (py_split (py_strip g)) \<noteq> []"
    then have "regex_search ABSTRACT_REGEX ?norm = Some g" by simp
    from sec [OF this] a abstract
    show "ps_abstract r = py_join '' '' (py_split (py_strip g))"
      "\<exists>a b. ?norm = a @ g @ b" "py_lower (ps_abstract r) = ps_abstract r"
      by simp_all
  next
    assume "regex_search ABSTRACT_REGEX ?norm = None \<or>
      (\<exists>g. regex_search ABSTRACT_REGEX ?norm = Some g \<and>
           py_join '' '' (py_split (py_strip g)) = [])"
    from fallback [OF this] abstract
    show "ps_abstract r = py_join '' '' (take 150 (py_split (py_join [newline] pages)))"
      by simp
  next
    show "ps_full_text r = py_join '' '' (py_split (py_join [newline] pages))"
      by (rule full)
  next
    show "ps_title r = py_strip (first_line (hd pages))"
      by (rule title)
  qed
qed

text \<open>A PDF of one page with all three sections, headings and text in mixed case.\<close>

definition three_sections_text :: string where
  "three_sections_text =
     ''P'' @ [newline] @ ''Abstract'' @ [newline] @ ''We Do.'' @ [newline] @
     ''1 Introduction'' @ [newline] @ ''Hi All'' @ [newline] @ ''2 M'' @ [newline] @
     ''Conclusion'' @ [newline] @ ''End.'' @ [newline] @ ''References''"

definition three_sections_world :: pdf_world where
  "three_sections_world =
     \<lparr>path_exists = (\<lambda>p. True),
      pdf_open = (\<lambda>p. Inr [Inr (Some three_sections_text)]),
      write_raises = (\<lambda>p. None)\<rparr>"

theorem extract_pdf_sections_lowercased_sections_witness:
  "path_exists three_sections_world ''a.pdf'' \<and>
   read_pages three_sections_world ''a.pdf'' = Inr [three_sections_text] \<and>
   regex_search INTRO_REGEX (py_lower (py_join [newline] [three_sections_text])) =
     Some ([newline] @ ''hi all'' @ [newline]) \<and>
   regex_search CONCLUSION_REGEX (py_lower (py_join [newline] [three_sections_text])) =
     Some ([newline] @ ''end.'' @ [newline]) \<and>
   regex_search ABSTRACT_REGEX (py_lower (py_join [newline] [three_sections_text])) =
     Some (''we do.'' @ [newline]) \<and>
   ps_introduction (fst (extract_pdf_sections three_sections_world ''a.pdf'')) = ''hi all'' \<and>
   ps_conclusion (fst (extract_pdf_sections three_sections_world ''a.pdf'')) = ''end.'' \<and>
   ps_abstract (fst (extract_pdf_sections three_sections_world ''a.pdf'')) = ''we do.'' \<and>
   py_lower (ps_abstract (fst (extract_pdf_sections three_sections_world ''a.pdf''))) =
     ps_abstract (fst (extract_pdf_sections three_sections_world ''a.pdf'')) \<and>
   ps_full_text (fst (extract_pdf_sections three_sections_world ''a.pdf'')) =
     ''P Abstract We Do. 1 Introduction Hi All 2 M Conclusion End. References'' \<and>
   ps_title (fst (extract_pdf_sections three_sections_world ''a.pdf'')) = ''P''"
proof -
  let ?r = "fst (extract_pdf_sections three_sections_world ''a.pdf'')"
  have there: "path_exists three_sections_world ''a.pdf''"
    by (simp add: three_sections_world_def)
  have pages: "read_pages three_sections_world ''a.pdf'' = Inr [three_sections_text]"
    by (simp add: three_sections_world_def read_pages_def)
  have intro: "regex_search INTRO_REGEX (py_lower (py_join [newline] [three_sections_text])) =
     Some ([newline] @ ''hi all'' @ [newline])"
    by code_simp
  have concl:
    "regex_search CONCLUSION_REGEX (py_lower (py_join [newline] [three_sections_text])) =
     Some ([newline] @ ''end.'' @ [newline])"
    by code_simp
  have abstract:
    "regex_search ABSTRACT_REGEX (py_lower (py_join [newline] [three_sections_text])) =
     Some (''we do.'' @ [newline])"
    by code_simp
  have clean_intro:
    "py_join '' '' (py_split (py_strip ([newline] @ ''hi all'' @ [newline]))) = ''hi all''"
    by code_simp
  have clean_concl:
    "py_join '' '' (py_split (py_strip ([newline] @ ''end.'' @ [newline]))) = ''end.''"
    by code_simp
  have clean_abstract:
    "py_join '' '' (py_split (py_strip (''we do.'' @ [newline]))) = ''we do.''"
    by code_simp
  have full: "py_join '' '' (py_split (py_join [newline] [three_sections_text])) =
      ''P Abstract We Do. 1 Introduction Hi All 2 M Conclusion End. References''"
    by code_simp
  have title: "py_strip (first_line (hd [three_sections_text])) = ''P''"
    by code_simp
  note inst = extract_pdf_sections_lowercased_sections
    [of three_sections_world "''a.pdf''" "[three_sections_text]" ?r]
  from there pages have hyp: "path_exists three_sections_world ''a.pdf'' \<and>
      read_pages three_sections_world ''a.pdf'' = Inr [three_sections_text] \<and>
      [three_sections_text] \<noteq> [] \<and> ?r = ?r"
    by simp
  from inst hyp intro have i: "ps_introduction ?r =
      py_join '' '' (py_split (py_strip ([newline] @ ''hi all'' @ [newline])))"
    by blast
  from inst hyp concl have c: "ps_conclusion ?r =
      py_join '' '' (py_split (py_strip ([newline] @ ''end.'' @ [newline])))"
    by blast
  from clean_abstract have ne: "py_join '' '' (py_split (py_strip (''we do.'' @ [newline]))) \<noteq> []"
    by simp
  from inst hyp abstract ne have a: "ps_abstract ?r =
      py_join '' '' (py_split (py_strip (''we do.'' @ [newline]))) \<and>
      py_lower (ps_abstract ?r) = ps_abstract ?r"
    by blast
  from inst hyp have f: "ps_full_text ?r =
      py_join '' '' (py_split (py_join [newline] [three_sections_text]))"
    and t: "ps_title ?r = py_strip (first_line (hd [three_sections_text]))"
    by blast+
  from i clean_intro have i': "ps_introduction ?r = ''hi all''" by simp
  from c clean_concl have c': "ps_conclusion ?r = ''end.''" by simp
  from a clean_abstract have a': "ps_abstract ?r = ''we do.''" by simp
  from a have l: "py_lower (ps_abstract ?r) = ps_abstract ?r" by (rule conjunct2)
  from f full have f': "ps_full_text ?r =
      ''P Abstract We Do. 1 Introduction Hi All 2 M Conclusion End. References''" by simp
  from t title have t': "ps_title ?r = ''P''" by simp
  from there pages intro concl abstract i' c' a' l f' t' show ?thesis
    by blast
qed

text \<open>
  The claim as worded fails on a PDF whose abstract heading is followed at once by
  the introduction heading: the abstract pattern matches, with an empty group, and
  the abstract field is the first words of the text in their original case, upper
  case included; and the title, which is neither the abstract fallback nor the full
  text, keeps its upper-case letters too.
\<close>

definition empty_abstract_text :: string where
  "empty_abstract_text =
     ''My Paper'' @ [newline] @ ''Abstract'' @ [newline] @ ''Introduction'' @ [newline] @
     ''Text''"

definition empty_abstract_world :: pdf_world where
  "empty_abstract_world =
     \<lparr>path_exists = (\<lambda>p. True),
      pdf_open = (\<lambda>p. Inr [Inr (Some empty_abstract_text)]),
      write_raises = (\<lambda>p. None)\<rparr>"

theorem matched_abstract_uppercase_counterexample:
  "regex_search ABSTRACT_REGEX (py_lower (py_join [newline] [empty_abstract_text])) = Some [] \<and>
   fst (extract_pdf_sections empty_abstract_world ''a.pdf'') =
     \<lparr>ps_path = ''a.pdf'', ps_title = ''My Paper'',
      ps_abstract = ''My Paper Abstract Introduction Text'', ps_introduction = [],
      ps_conclusion = [], ps_full_text = ''My Paper Abstract Introduction Text'',
      ps_source = ''pdf_paper'', ps_error = None\<rparr> \<and>
   py_lower (ps_abstract (fst (extract_pdf_sections empty_abstract_world ''a.pdf''))) =
     ''my paper abstract introduction text'' \<and>
   py_lower (ps_abstract (fst (extract_pdf_sections empty_abstract_world ''a.pdf''))) \<noteq>
     ps_abstract (fst (extract_pdf_sections empty_abstract_world ''a.pdf'') ) \<and>
   py_lower (ps_title (fst (extract_pdf_sections empty_abstract_world ''a.pdf''))) \<noteq>
     ps_title (fst (extract_pdf_sections empty_abstract_world ''a.pdf''))"
proof -
  have m: "regex_search ABSTRACT_REGEX (py_lower (py_join [newline] [empty_abstract_text])) =
      Some []"
    by code_simp
  have r: "fst (extract_pdf_sections empty_abstract_world ''a.pdf'') =
     \<lparr>ps_path = ''a.pdf'', ps_title = ''My Paper'',
      ps_abstract = ''My Paper Abstract Introduction Text'', ps_introduction = [],
      ps_conclusion = [], ps_full_text = ''My Paper Abstract Introduction Text'',
      ps_source = ''pdf_paper'', ps_error = None\<rparr>"
    by code_simp
  have la: "py_lower ''My Paper Abstract Introduction Text'' =
      ''my paper abstract introduction text''"
    by code_simp
  have lt: "py_lower ''My Paper'' = ''my paper''"
    by code_simp
  from m r la lt show ?thesis
    by simp
qed


section \<open>src/tools/web\_crawler.py: fetch\_page\_text\<close>

text \<open>
  What the function reads of its environment. \<open>requests.get\<close> raises or gives a
  response; \<open>raise_for_status\<close> raises or not on that response; the HTML parser
  raises or gives the document as the function reads it after the \<open>decompose\<close>
  loop: the string of the title element if it has one, the elements
  \<open>p, li, h1, h2, h3, blockquote\<close> and the body, each element being the list of its
  text nodes; \<open>urlparse(url).netloc\<close>, \<open>datetime.now().isoformat()\<close> and
  \<open>str(hash(url))\<close> are what the interpreter gives; opening a file for writing and
  writing into it raise or not. The calls of \<open>print\<close> are left out.
\<close>

record response =
  status_code :: nat
  r_text :: string

type_synonym element = "string list"

record soup =
  title_string :: "string option"
  text_elements :: "element list"
  body :: "element option"

record web_world =
  requests_get :: "string \<Rightarrow> nat \<Rightarrow> (string \<times> string) list \<Rightarrow> pyexn + response"
  raise_for_status :: "response \<Rightarrow> pyexn option"
  BeautifulSoup :: "string \<Rightarrow> pyexn + soup"
  urlparse_netloc :: "string \<Rightarrow> pyexn + string"
  datetime_now_isoformat :: string
  str_hash :: "string \<Rightarrow> string"
  open_raises :: "string \<Rightarrow> pyexn option"
  f_write_raises :: "string \<Rightarrow> pyexn option"

text \<open>What a file holds: the markup, the dumped record, or the part written before an exception.\<close>

datatype file_content = Markup string | JsonDump pydict | Truncated

definition RAW_DATA_DIR :: string where
  "RAW_DATA_DIR = ''data/raw_web''"

definition USER_AGENT :: string where
  "USER_AGENT = ''rag-bot/1.0 (Academic Project)''"

text \<open>\<open>os.path.join(a, b)\<close> on a POSIX system.\<close>

definition path_join :: "string \<Rightarrow> string \<Rightarrow> string" where
  "path_join a b =
     (if b \<noteq> [] \<and> hd b = CHR ''/'' then b
      else if a = [] \<or> last a = CHR ''/'' then a @ b
      else a @ ''/'' @ b)"

text \<open>\<open>e.get_text(separator=separator, strip=True)\<close>: the stripped text nodes that are not empty, joined.\<close>

definition get_text :: "string \<Rightarrow> element \<Rightarrow> string" where
  "get_text separator e = py_join separator (filter (\<lambda>s. s \<noteq> []) (map py_strip e))"

text \<open>
  \<open>soup.title.string.strip() if soup.title and soup.title.string else urlparse(url).netloc\<close>
\<close>

definition page_title :: "web_world \<Rightarrow> string \<Rightarrow> soup \<Rightarrow> pyexn + string" where
  "page_title w url sp =
     (case title_string sp of
        Some s \<Rightarrow> if s \<noteq> [] then Inr (py_strip s) else urlparse_netloc w url
      | None \<Rightarrow> urlparse_netloc w url)"

text \<open>The text of the page: that of the text elements, or that of the body when there is none.\<close>

definition page_text :: "soup \<Rightarrow> string" where
  "page_text sp =
     (let text = py_join '' '' (map (get_text '' '')
                   (filter (\<lambda>e. get_text [] e \<noteq> []) (text_elements sp)));
          cleaned_text = py_strip (py_join '' '' (py_split text))
      in if cleaned_text = []
         then (let cleaned_text = (case body sp of Some b \<Rightarrow> get_text '' '' b | None \<Rightarrow> [])
               in py_strip (py_join '' '' (py_split cleaned_text)))
         else cleaned_text)"

definition web_metadata :: "web_world \<Rightarrow> string \<Rightarrow> string \<Rightarrow> string \<Rightarrow> pydict" where
  "web_metadata w url title cleaned_text =
     [(''url'', PStr url), (''title'', PStr title),
      (''date_fetched'', PStr (datetime_now_isoformat w)), (''source'', PStr ''web_page''),
      (''text'', PStr cleaned_text)]"

text \<open>
  \<open>title.replace(" ", "_").replace("/", "-").lower()[:50] + "_" + str(hash(url))[:8]\<close>
\<close>

definition make_doc_id :: "web_world \<Rightarrow> string \<Rightarrow> string \<Rightarrow> string" where
  "make_doc_id w url title =
     take 50 (py_lower (py_replace ''/'' ''-'' (py_replace '' '' ''_'' title))) @ ''_'' @
     take 8 (str_hash w url)"

definition raw_path :: "string \<Rightarrow> string" where
  "raw_path doc_id = path_join RAW_DATA_DIR (doc_id @ ''_raw.html'')"

definition processed_path :: "string \<Rightarrow> string" where
  "processed_path doc_id = path_join RAW_DATA_DIR (doc_id @ ''_processed.json'')"

text \<open>
  One \<open>with open(path, "w") as f: ...\<close> block: the exception it raises, if any, and
  the file it leaves.
\<close>

definition write_file ::
  "web_world \<Rightarrow> string \<Rightarrow> file_content \<Rightarrow> pyexn option \<times> (string \<times> file_content) list" where
  "write_file w path content =
     (case open_raises w path of
        Some e \<Rightarrow> (Some e, [])
      | None \<Rightarrow>
          (case f_write_raises w path of
             Some e \<Rightarrow> (Some e, [(path, Truncated)])
           | None \<Rightarrow> (None, [(path, content)])))"

text \<open>The two \<open>with\<close> blocks, one after the other.\<close>

definition write_both ::
  "web_world \<Rightarrow> string \<Rightarrow> string \<Rightarrow> pydict \<Rightarrow> pyexn option \<times> (string \<times> file_content) list"
  where
  "write_both w doc_id markup processed =
     (case write_file w (raw_path doc_id) (Markup markup) of
        (Some e, files) \<Rightarrow> (Some e, files)
      | (None, files) \<Rightarrow>
          (case write_file w (processed_path doc_id) (JsonDump processed) of
             (outcome, files') \<Rightarrow> (outcome, files @ files')))"

text \<open>The body of the \<open>try\<close> block: the exception or the record, and the files written.\<close>

definition fetch_try ::
  "web_world \<Rightarrow> string \<Rightarrow> nat \<Rightarrow> (pyexn + pydict) \<times> (string \<times> file_content) list" where
  "fetch_try w url timeout =
     (case requests_get w url timeout [(''User-Agent'', USER_AGENT)] of
        Inl e \<Rightarrow> (Inl e, [])
      | Inr r \<Rightarrow>
          (case raise_for_status w r of
             Some e \<Rightarrow> (Inl e, [])
           | None \<Rightarrow>
               (case BeautifulSoup w (r_text r) of
                  Inl e \<Rightarrow> (Inl e, [])
                | Inr sp \<Rightarrow>
                    (case page_title w url sp of
                       Inl e \<Rightarrow> (Inl e, [])
                     | Inr title \<Rightarrow>
                         (let metadata = web_metadata w url title (page_text sp);
                              doc_id = make_doc_id w url title
                          in case write_both w doc_id (r_text r) metadata of
                               (Some e, files) \<Rightarrow> (Inl e, files)
                             | (None, files) \<Rightarrow> (Inr metadata, files))))))"

text \<open>The two \<open>except\<close> clauses.\<close>

fun is_request_exception :: "pyexn \<Rightarrow> bool" where
  "is_request_exception (RequestException m) = True"
| "is_request_exception e = False"

definition error_record :: "string \<Rightarrow> pyexn \<Rightarrow> pydict" where
  "error_record url e =
     [(''url'', PStr url), (''title'', PStr ''ERROR''),
      (''text'', PStr ((if is_request_exception e then ''Failed to fetch: ''
                        else ''Unexpected error: '') @ exn_str e)),
      (''source'', PStr ''web_page'')]"

text \<open>\<open>fetch_page_text\<close>: the record it returns and the files it leaves.\<close>

definition fetch_page_text ::
  "web_world \<Rightarrow> string \<Rightarrow> nat \<Rightarrow> pydict \<times> (string \<times> file_content) list" where
  "fetch_page_text w url timeout =
     (case fetch_try w url timeout of
        (Inl e, files) \<Rightarrow> (error_record url e, files)
      | (Inr result, files) \<Rightarrow> (result, files))"

text \<open>
  An example environment: one server refuses the connection, one does not answer in
  time, one page is answered with status 404, and every other page is served.
\<close>

definition not_found_message :: string where
  "not_found_message = ''404 Client Error: Not Found for url: http://example.org/gone''"

definition example_page :: string where
  "example_page =
     ''<html><head><title>Ontology / Notes</title></head><body><p>Hello  World</p></body></html>''"

definition example_web :: web_world where
  "example_web =
     \<lparr>requests_get = (\<lambda>url timeout headers.
         if url = ''http://down.example.org/''
         then Inl (RequestException ''Connection refused'')
         else if url = ''http://slow.example.org/''
         then Inl (RequestException ''Read timed out. (read timeout=15)'')
         else if url = ''http://example.org/gone''
         then Inr \<lparr>status_code = 404, r_text = ''Not Found''\<rparr>
         else Inr \<lparr>status_code = 200, r_text = example_page\<rparr>),
      raise_for_status = (\<lambda>r.
         if 400 \<le> status_code r \<and> status_code r < 600
         then Some (RequestException not_found_message) else None),
      BeautifulSoup = (\<lambda>markup.
         Inr \<lparr>title_string = Some ''Ontology / Notes'', text_elements = [[''Hello  World'']],
              body = Some [''Hello  World'']\<rparr>),
      urlparse_netloc = (\<lambda>url. Inr ''example.org''),
      datetime_now_isoformat = ''2024-05-01T12:00:00.000000'',
      str_hash = (\<lambda>url. ''-123456789012''),
      open_raises = (\<lambda>path. None),
      f_write_raises = (\<lambda>path. None)\<rparr>"

section \<open>Facts about fetch\_page\_text\<close>

lemma py_replace_slash: "CHR ''/'' \<notin> set (py_replace ''/'' ''-'' s)"
  by (induction s) auto

lemma lower_char_slash: "lower_char c = CHR ''/'' \<Longrightarrow> c = CHR ''/''"
proof (cases "is_upper c")
  case False
  assume "lower_char c = CHR ''/''"
  with False show ?thesis by (simp add: lower_char_def)
next
  case True
  assume l: "lower_char c = CHR ''/''"
  have "\<not> is_upper (lower_char c)"
    by (rule lower_char_not_upper)
  with l have "\<not> is_upper CHR ''/''" by simp
  from True have "(of_char c :: nat) + 32 < 256" "65 \<le> (of_char c :: nat)"
    by (auto simp: is_upper_def Let_def)
  then have "(of_char (char_of (of_char c + 32 :: nat)) :: nat) = of_char c + 32"
    by simp
  moreover from True l
  have "(of_char (char_of (of_char c + 32 :: nat)) :: nat) = of_char CHR ''/''"
    by (simp add: lower_char_def)
  ultimately have "(of_char c :: nat) + 32 = 47" by simp
  with \<open>65 \<le> (of_char c :: nat)\<close> show ?thesis by simp
qed

lemma doc_id_hd: "hd (make_doc_id w url title @ suffix) \<noteq> CHR ''/''"
proof -
  let ?t = "take 50 (py_lower (py_replace ''/'' ''-'' (py_replace '' '' ''_'' title)))"
  have "CHR ''/'' \<notin> set (py_lower (py_replace ''/'' ''-'' (py_replace '' '' ''_'' title)))"
  proof
    assume "CHR ''/'' \<in> set (py_lower (py_replace ''/'' ''-'' (py_replace '' '' ''_'' title)))"
    then obtain c where c: "c \<in> set (py_replace ''/'' ''-'' (py_replace '' '' ''_'' title))"
      and l: "lower_char c = CHR ''/''"
      by (auto simp: py_lower_def)
    from l have "c = CHR ''/''" by (rule lower_char_slash)
    with c py_replace_slash [of "py_replace '' '' ''_'' title"] show False by simp
  qed
  then have ns: "CHR ''/'' \<notin> set ?t"
    by (auto dest: in_set_takeD)
  show ?thesis
  proof (cases ?t)
    case Nil
    then show ?thesis by (simp add: make_doc_id_def)
  next
    case (Cons c cs)
    with ns have "c \<noteq> CHR ''/''" by auto
    with Cons show ?thesis by (simp add: make_doc_id_def)
  qed
qed

lemma raw_path_eq: "raw_path (make_doc_id w url title) =
    ''data/raw_web/'' @ make_doc_id w url title @ ''_raw.html''"
  using doc_id_hd [of w url title "''_raw.html''"]
  by (simp add: raw_path_def path_join_def RAW_DATA_DIR_def)

lemma processed_path_eq: "processed_path (make_doc_id w url title) =
    ''data/raw_web/'' @ make_doc_id w url title @ ''_processed.json''"
  using doc_id_hd [of w url title "''_processed.json''"]
  by (simp add: processed_path_def path_join_def RAW_DATA_DIR_def)

lemma fetch_page_text_get_raises:
  "requests_get w url timeout [(''User-Agent'', USER_AGENT)] = Inl e \<Longrightarrow>
     fetch_page_text w url timeout = (error_record url e, [])"
  by (simp add: fetch_page_text_def fetch_try_def)

lemma fetch_page_text_status_raises:
  "requests_get w url timeout [(''User-Agent'', USER_AGENT)] = Inr r \<Longrightarrow>
   raise_for_status w r = Some e \<Longrightarrow>
     fetch_page_text w url timeout = (error_record url e, [])"
  by (simp add: fetch_page_text_def fetch_try_def)

lemma fetch_page_text_parse_raises:
  "requests_get w url timeout [(''User-Agent'', USER_AGENT)] = Inr r \<Longrightarrow>
   raise_for_status w r = None \<Longrightarrow> BeautifulSoup w (r_text r) = Inl e \<Longrightarrow>
     fetch_page_text w url timeout = (error_record url e, [])"
  by (simp add: fetch_page_text_def fetch_try_def)

lemma fetch_page_text_title_raises:
  "requests_get w url timeout [(''User-Agent'', USER_AGENT)] = Inr r \<Longrightarrow>
   raise_for_status w r = None \<Longrightarrow> BeautifulSoup w (r_text r) = Inr sp \<Longrightarrow>
   page_title w url sp = Inl e \<Longrightarrow>
     fetch_page_text w url timeout = (error_record url e, [])"
  by (simp add: fetch_page_text_def fetch_try_def)


lemma length_write_file: "length (snd (write_file w path content)) \<le> 1"
  by (simp add: write_file_def split: option.splits)

lemma length_write_both: "length (snd (write_both w doc_id markup processed)) \<le> 2"
proof -
  obtain o1 f1 where w1: "write_file w (raw_path doc_id) (Markup markup) = (o1, f1)"
    by (cases "write_file w (raw_path doc_id) (Markup markup)")
  obtain o2 f2 where w2: "write_file w (processed_path doc_id) (JsonDump processed) = (o2, f2)"
    by (cases "write_file w (processed_path doc_id) (JsonDump processed)")
  from w1 length_write_file [of w "raw_path doc_id" "Markup markup"] have "length f1 \<le> 1"
    by simp
  moreover from w2 length_write_file [of w "processed_path doc_id" "JsonDump processed"]
  have "length f2 \<le> 1"
    by simp
  ultimately show ?thesis
    using w1 w2 by (cases o1) (simp_all add: write_both_def)
qed

lemma length_fetch_try: "length (snd (fetch_try w url timeout)) \<le> 2"
proof (cases "requests_get w url timeout [(''User-Agent'', USER_AGENT)]")
  case (Inl e)
  then show ?thesis by (simp add: fetch_try_def)
next
  case (Inr r)
  note get = Inr
  show ?thesis
  proof (cases "raise_for_status w r")
    case (Some e)
    with get show ?thesis by (simp add: fetch_try_def)
  next
    case None
    note status = None
    show ?thesis
    proof (cases "BeautifulSoup w (r_text r)")
      case (Inl e)
      with get status show ?thesis by (simp add: fetch_try_def)
    next
      case (Inr sp)
      note parse = Inr
      show ?thesis
      proof (cases "page_title w url sp")
        case (Inl e)
        with get status parse show ?thesis by (simp add: fetch_try_def)
      next
        case (Inr title)
        obtain outcome files where wb:
          "write_both w (make_doc_id w url title) (r_text r)
             (web_metadata w url title (page_text sp)) = (outcome, files)"
          by (cases "write_both w (make_doc_id w url title) (r_text r)
             (web_metadata w url title (page_text sp))")
        with length_write_both [of w "make_doc_id w url title" "r_text r"
            "web_metadata w url title (page_text sp)"]
        have "length files \<le> 2" by simp
        with get status parse Inr wb show ?thesis
          by (cases outcome) (simp_all add: fetch_try_def Let_def)
      qed
    qed
  qed
qed

lemma length_fetch_page_text: "length (snd (fetch_page_text w url timeout)) \<le> 2"
proof -
  obtain res files where ft: "fetch_try w url timeout = (res, files)"
    by (cases "fetch_try w url timeout")
  with length_fetch_try [of w url timeout] have "length files \<le> 2" by simp
  with ft show ?thesis
    by (cases res) (simp_all add: fetch_page_text_def)
qed

lemma fetch_page_text_success:
  assumes "requests_get w url timeout [(''User-Agent'', USER_AGENT)] = Inr r"
    and "raise_for_status w r = None"
    and "BeautifulSoup w (r_text r) = Inr sp"
    and "page_title w url sp = Inr title"
    and "open_raises w (raw_path (make_doc_id w url title)) = None"
    and "f_write_raises w (raw_path (make_doc_id w url title)) = None"
    and "open_raises w (processed_path (make_doc_id w url title)) = None"
    and "f_write_raises w (processed_path (make_doc_id w url title)) = None"
  shows "fetch_page_text w url timeout =
     (web_metadata w url title (page_text sp),
      [(raw_path (make_doc_id w url title), Markup (r_text r)),
       (processed_path (make_doc_id w url title),
        JsonDump (web_metadata w url title (page_text sp)))])"
  using assms
  by (simp add: fetch_page_text_def fetch_try_def write_both_def write_file_def Let_def)

section \<open>The claims about fetch\_page\_text\<close>



text \<open>
  Claim C9, as the code has it. A call in which the page is fetched, parsed and
  given a title, and in which opening and writing the two files do not raise, leaves
  exactly two files, \<open>data/raw_web/{doc_id}_raw.html\<close> with the markup as fetched and
  \<open>data/raw_web/{doc_id}_processed.json\<close> with the record it returns (url, title,
  time, source, text), at two different paths. A call in which the request, the
  status check, the parser or the title raises leaves no file, and no call leaves
  more than two. (So not every call writes two files: see the counterexample.)
\<close>

theorem fetch_page_text_two_files:
  "(requests_get w url timeout [(''User-Agent'', USER_AGENT)] = Inr r \<and>
    raise_for_status w r = None \<and> BeautifulSoup w (r_text r) = Inr sp \<and>
    page_title w url sp = Inr title \<and> doc_id = make_doc_id w url title \<and>
    open_raises w (raw_path doc_id) = None \<and> f_write_raises w (raw_path doc_id) = None \<and>
    open_raises w (processed_path doc_id) = None \<and>
    f_write_raises w (processed_path doc_id) = None \<longrightarrow>
      fst (fetch_page_text w url timeout) =
        [(''url'', PStr url), (''title'', PStr title),
         (''date_fetched'', PStr (datetime_now_isoformat w)), (''source'', PStr ''web_page''),
         (''text'', PStr (page_text sp))] \<and>
      snd (fetch_page_text w url timeout) =
        [(''data/raw_web/'' @ doc_id @ ''_raw.html'', Markup (r_text r)),
         (''data/raw_web/'' @ doc_id @ ''_processed.json'',
          JsonDump (fst (fetch_page_text w url timeout)))] \<and>
      raw_path doc_id = ''data/raw_web/'' @ doc_id @ ''_raw.html'' \<and>
      processed_path doc_id = ''data/raw_web/'' @ doc_id @ ''_processed.json'' \<and>
      raw_path doc_id \<noteq> processed_path doc_id \<and>
      length (snd (fetch_page_text w url timeout)) = 2) \<and>
   (requests_get w url timeout [(''User-Agent'', USER_AGENT)] = Inl e \<or>
    (\<exists>r. requests_get w url timeout [(''User-Agent'', USER_AGENT)] = Inr r \<and>
         (raise_for_status w r = Some e \<or>
          raise_for_status w r = None \<and>
          (BeautifulSoup w (r_text r) = Inl e \<or>
           (\<exists>sp. BeautifulSoup w (r_text r) = Inr sp \<and> page_title w url sp = Inl e)))) \<longrightarrow>
      snd (fetch_page_text w url timeout) = []) \<and>
   length (snd (fetch_page_text w url timeout)) \<le> 2"
proof (intro conjI impI)
  assume h: "requests_get w url timeout [(''User-Agent'', USER_AGENT)] = Inr r \<and>
    raise_for_status w r = None \<and> BeautifulSoup w (r_text r) = Inr sp \<and>
    page_title w url sp = Inr title \<and> doc_id = make_doc_id w url title \<and>
    open_raises w (raw_path doc_id) = None \<and> f_write_raises w (raw_path doc_id) = None \<and>
    open_raises w (processed_path doc_id) = None \<and>
    f_write_raises w (processed_path doc_id) = None"
  from h have d: "doc_id = make_doc_id w url title" by simp
  have res: "fetch_page_text w url timeout =
     (web_metadata w url title (page_text sp),
      [(raw_path (make_doc_id w url title), Markup (r_text r)),
       (processed_path (make_doc_id w url title),
        JsonDump (web_metadata w url title (page_text sp)))])"
    using h fetch_page_text_success [of w url timeout r sp title] unfolding d by blast
  from res show "fst (fetch_page_text w url timeout) =
        [(''url'', PStr url), (''title'', PStr title),
         (''date_fetched'', PStr (datetime_now_isoformat w)), (''source'', PStr ''web_page''),
         (''text'', PStr (page_text sp))]"
    by (simp add: web_metadata_def)
  from res d show "snd (fetch_page_text w url timeout) =
        [(''data/raw_web/'' @ doc_id @ ''_raw.html'', Markup (r_text r)),
         (''data/raw_web/'' @ doc_id @ ''_processed.json'',
          JsonDump (fst (fetch_page_text w url timeout)))]"
    by (simp add: raw_path_eq processed_path_eq)
  from d show rp: "raw_path doc_id = ''data/raw_web/'' @ doc_id @ ''_raw.html''"
    by (simp add: raw_path_eq)
  from d show pp: "processed_path doc_id = ''data/raw_web/'' @ doc_id @ ''_processed.json''"
    by (simp add: processed_path_eq)
  from rp pp show "raw_path doc_id \<noteq> processed_path doc_id"
    by simp
  from res show "length (snd (fetch_page_text w url timeout)) = 2"
    by simp
next
  assume "requests_get w url timeout [(''User-Agent'', USER_AGENT)] = Inl e \<or>
    (\<exists>r. requests_get w url timeout [(''User-Agent'', USER_AGENT)] = Inr r \<and>
         (raise_for_status w r = Some e \<or>
          raise_for_status w r = None \<and>
          (BeautifulSoup w (r_text r) = Inl e \<or>
           (\<exists>sp. BeautifulSoup w (r_text r) = Inr sp \<and> page_title w url sp = Inl e))))"
  then have "fetch_page_text w url timeout = (error_record url e, [])"
    using fetch_page_text_get_raises fetch_page_text_status_raises
      fetch_page_text_parse_raises fetch_page_text_title_raises
    by blast
  then show "snd (fetch_page_text w url timeout) = []"
    by simp
next
  show "length (snd (fetch_page_text w url timeout)) \<le> 2"
    by (rule length_fetch_page_text)
qed

text \<open>The theorem at a page that is served, with a title and one paragraph.\<close>

theorem fetch_page_text_two_files_witness:
  "requests_get example_web ''http://example.org/notes'' 15 [(''User-Agent'', USER_AGENT)] =
     Inr \<lparr>status_code = 200, r_text = example_page\<rparr> \<and>
   raise_for_status example_web \<lparr>status_code = 200, r_text = example_page\<rparr> = None \<and>
   page_title example_web ''http://example.org/notes''
     \<lparr>title_string = Some ''Ontology / Notes'', text_elements = [[''Hello  World'']],
      body = Some [''Hello  World'']\<rparr> = Inr ''Ontology / Notes'' \<and>
   make_doc_id example_web ''http://example.org/notes'' ''Ontology / Notes'' =
     ''ontology_-_notes_-1234567'' \<and>
   fetch_page_text example_web ''http://example.org/notes'' 15 =
     ([(''url'', PStr ''http://example.org/notes''), (''title'', PStr ''Ontology / Notes''),
       (''date_fetched'', PStr ''2024-05-01T12:00:00.000000''),
       (''source'', PStr ''web_page''), (''text'', PStr ''Hello World'')],
      [(''data/raw_web/ontology_-_notes_-1234567_raw.html'', Markup example_page),
       (''data/raw_web/ontology_-_notes_-1234567_processed.json'',
        JsonDump
          [(''url'', PStr ''http://example.org/notes''),
           (''title'', PStr ''Ontology / Notes''),
           (''date_fetched'', PStr ''2024-05-01T12:00:00.000000''),
           (''source'', PStr ''web_page''), (''text'', PStr ''Hello World'')])])"
proof -
  let ?url = "''http://example.org/notes''"
  let ?r = "\<lparr>status_code = 200, r_text = example_page\<rparr>"
  let ?sp = "\<lparr>title_string = Some ''Ontology / Notes'', text_elements = [[''Hello  World'']],
      body = Some [''Hello  World'']\<rparr>"
  have get: "requests_get example_web ?url 15 [(''User-Agent'', USER_AGENT)] = Inr ?r"
    by (simp add: example_web_def)
  have status: "raise_for_status example_web ?r = None"
    by (simp add: example_web_def)
  have parse: "BeautifulSoup example_web (r_text ?r) = Inr ?sp"
    by (simp add: example_web_def)
  have strip: "py_strip ''Ontology / Notes'' = ''Ontology / Notes''"
    by code_simp
  have title: "page_title example_web ?url ?sp = Inr ''Ontology / Notes''"
    by (simp add: page_title_def strip)
  have hash: "str_hash example_web ?url = ''-123456789012''"
    by (simp add: example_web_def)
  have lowered: "py_lower ''Ontology_-_Notes'' = ''ontology_-_notes''"
    by code_simp
  have id: "make_doc_id example_web ?url ''Ontology / Notes'' = ''ontology_-_notes_-1234567''"
    by (simp add: make_doc_id_def hash lowered)
  have cleaned: "page_text ?sp = ''Hello World''"
    by code_simp
  have now: "datetime_now_isoformat example_web = ''2024-05-01T12:00:00.000000''"
    by (simp add: example_web_def)
  have files: "open_raises example_web p = None" "f_write_raises example_web p = None" for p
    by (simp_all add: example_web_def)
  note inst = fetch_page_text_two_files
    [of example_web ?url 15 ?r ?sp "''Ontology / Notes''" "''ontology_-_notes_-1234567''"]
  from get status parse title id files
  have hyp: "requests_get example_web ?url 15 [(''User-Agent'', USER_AGENT)] = Inr ?r \<and>
    raise_for_status example_web ?r = None \<and> BeautifulSoup example_web (r_text ?r) = Inr ?sp \<and>
    page_title example_web ?url ?sp = Inr ''Ontology / Notes'' \<and>
    ''ontology_-_notes_-1234567'' = make_doc_id example_web ?url ''Ontology / Notes'' \<and>
    open_raises example_web (raw_path ''ontology_-_notes_-1234567'') = None \<and>
    f_write_raises example_web (raw_path ''ontology_-_notes_-1234567'') = None \<and>
    open_raises example_web (processed_path ''ontology_-_notes_-1234567'') = None \<and>
    f_write_raises example_web (processed_path ''ontology_-_notes_-1234567'') = None"
    by simp
  from inst hyp
  have f: "fst (fetch_page_text example_web ?url 15) =
        [(''url'', PStr ?url), (''title'', PStr ''Ontology / Notes''),
         (''date_fetched'', PStr (datetime_now_isoformat example_web)),
         (''source'', PStr ''web_page''), (''text'', PStr (page_text ?sp))]"
    and s: "snd (fetch_page_text example_web ?url 15) =
        [(''data/raw_web/'' @ ''ontology_-_notes_-1234567'' @ ''_raw.html'',
          Markup (r_text ?r)),
         (''data/raw_web/'' @ ''ontology_-_notes_-1234567'' @ ''_processed.json'',
          JsonDump (fst (fetch_page_text example_web ?url 15)))]"
    by blast+
  from f cleaned now have f': "fst (fetch_page_text example_web ?url 15) =
     [(''url'', PStr ?url), (''title'', PStr ''Ontology / Notes''),
       (''date_fetched'', PStr ''2024-05-01T12:00:00.000000''),
       (''source'', PStr ''web_page''), (''text'', PStr ''Hello World'')]"
    by simp
  from s f' have s': "snd (fetch_page_text example_web ?url 15) =
      [(''data/raw_web/ontology_-_notes_-1234567_raw.html'', Markup example_page),
       (''data/raw_web/ontology_-_notes_-1234567_processed.json'',
        JsonDump
          [(''url'', PStr ?url), (''title'', PStr ''Ontology / Notes''),
           (''date_fetched'', PStr ''2024-05-01T12:00:00.000000''),
           (''source'', PStr ''web_page''), (''text'', PStr ''Hello World'')])]"
    by simp
  from f' s' have "fetch_page_text example_web ?url 15 =
     ([(''url'', PStr ?url), (''title'', PStr ''Ontology / Notes''),
       (''date_fetched'', PStr ''2024-05-01T12:00:00.000000''),
       (''source'', PStr ''web_page''), (''text'', PStr ''Hello World'')],
      [(''data/raw_web/ontology_-_notes_-1234567_raw.html'', Markup example_page),
       (''data/raw_web/ontology_-_notes_-1234567_processed.json'',
        JsonDump
          [(''url'', PStr ?url), (''title'', PStr ''Ontology / Notes''),
           (''date_fetched'', PStr ''2024-05-01T12:00:00.000000''),
           (''source'', PStr ''web_page''), (''text'', PStr ''Hello World'')])])"
    by (simp add: prod_eq_iff)
  with get status title id show ?thesis
    by blast
qed

text \<open>
  The claim as worded fails on a call whose request times out: the call returns the
  error record and leaves no file.
\<close>

theorem fetch_page_text_no_file_counterexample:
  "fetch_page_text example_web ''http://slow.example.org/'' 15 =
     ([(''url'', PStr ''http://slow.example.org/''), (''title'', PStr ''ERROR''),
       (''text'', PStr ''Failed to fetch: Read timed out. (read timeout=15)''),
       (''source'', PStr ''web_page'')], []) \<and>
   length (snd (fetch_page_text example_web ''http://slow.example.org/'' 15)) \<noteq> 2"
  by (simp add: fetch_page_text_def fetch_try_def example_web_def error_record_def)

end
